theory Spec2Isabelle
  imports Main "HOL-Library.Log_Nat"
begin

section \<open>Session management of the Databricks API Explorer server (main.py)\<close>

text \<open>
  The server keeps one process-wide dictionary \<^verbatim>\<open>sessions\<close> from session identifiers to
  \<^verbatim>\<open>Session\<close> objects. Everything the code reads from outside itself is made explicit:
  \<^item> \<^verbatim>\<open>datetime.now()\<close> is a reading of a clock. The clock is a sequence of readings; every
    call consumes the next one. Nothing is assumed of the sequence: the wall clock of a
    machine can stand still between two calls and can be set back.
  \<^item> \<^verbatim>\<open>str(uuid.uuid4())\<close> is the next element of a sequence of identifiers.
  \<^item> \<^verbatim>\<open>os.getenv\<close> reads a map of environment entries.
  \<^item> the round trip to the SQL warehouse in \<^verbatim>\<open>login\<close> is an outcome given to the model.

  A \<^verbatim>\<open>datetime\<close> is the number of microseconds since a fixed origin and a
  \<^verbatim>\<open>timedelta\<close> a number of microseconds, both unbounded integers (Python stores both with
  microsecond resolution; subtraction and comparison are exact).
\<close>

subsection \<open>Data model\<close>

type_synonym datetime = int
type_synonym timedelta = int

text \<open>\<^verbatim>\<open>timedelta(hours=n)\<close>.\<close>

definition timedelta_hours :: "int \<Rightarrow> timedelta" where
  "timedelta_hours n = n * 3600 * 1000000"

text \<open>
  The class \<^verbatim>\<open>Session\<close> (lines 20-35). The attribute \<^verbatim>\<open>id\<close> is the field \<open>id_s\<close>
  (\<open>id\<close> is the identity function of HOL).
\<close>

record session =
  id_s :: string
  host :: string
  token :: string
  http_path :: string
  created_at :: datetime
  last_used :: datetime
  expiry :: timedelta

text \<open>
  The state of the process and of its surroundings: the dictionary \<^verbatim>\<open>sessions\<close> (line 18),
  the environment entries, the clock with the number of readings taken so far, and the
  source of identifiers with the number drawn so far.
\<close>

record world =
  sessions :: "string \<rightharpoonup> session"
  environ :: "string \<rightharpoonup> string"
  clock :: "nat \<Rightarrow> datetime"
  ticks :: nat
  uuids :: "nat \<Rightarrow> string"
  drawn :: nat

text \<open>\<^verbatim>\<open>datetime.now()\<close>: the next reading of the clock.\<close>

definition now :: "world \<Rightarrow> world \<times> datetime" where
  "now w = (w\<lparr>ticks := ticks w + 1\<rparr>, clock w (ticks w))"

text \<open>\<^verbatim>\<open>str(uuid.uuid4())\<close>: the next identifier of the source.\<close>

definition uuid4 :: "world \<Rightarrow> world \<times> string" where
  "uuid4 w = (w\<lparr>drawn := drawn w + 1\<rparr>, uuids w (drawn w))"

text \<open>\<^verbatim>\<open>os.getenv(name)\<close>: \<open>None\<close> when the entry is not set.\<close>

definition getenv :: "world \<Rightarrow> string \<Rightarrow> string option" where
  "getenv w name = environ w name"

subsection \<open>The Session entity\<close>

text \<open>
  \<^verbatim>\<open>Session.__init__\<close> (lines 21-29): the identifier is drawn first, then the clock is read
  twice, once for \<^verbatim>\<open>created_at\<close> and once more for \<^verbatim>\<open>last_used\<close>.
\<close>

definition Session_init :: "world \<Rightarrow> string \<Rightarrow> string \<Rightarrow> string \<Rightarrow> world \<times> session" where
  "Session_init w h t p =
     (case uuid4 w of (w1, u) \<Rightarrow>
      case now w1 of (w2, c) \<Rightarrow>
      case now w2 of (w3, l) \<Rightarrow>
        (w3, \<lparr>id_s = u, host = h, token = t, http_path = p,
              created_at = c, last_used = l, expiry = timedelta_hours 1\<rparr>))"

text \<open>\<^verbatim>\<open>update_last_used\<close> (lines 31-32). The object is mutated in place; the model returns
  the updated value and the caller stores it.\<close>

definition update_last_used :: "world \<Rightarrow> session \<Rightarrow> world \<times> session" where
  "update_last_used w s = (case now w of (w1, t) \<Rightarrow> (w1, s\<lparr>last_used := t\<rparr>))"

text \<open>\<^verbatim>\<open>is_expired\<close> (lines 34-35).\<close>

definition is_expired :: "world \<Rightarrow> session \<Rightarrow> world \<times> bool" where
  "is_expired w s = (case now w of (w1, t) \<Rightarrow> (w1, t - last_used s > expiry s))"

subsection \<open>The store lookup\<close>

text \<open>
  \<^verbatim>\<open>get_session\<close> (lines 37-50). A \<^verbatim>\<open>Session\<close> object defines neither \<^verbatim>\<open>__bool__\<close> nor
  \<^verbatim>\<open>__len__\<close>, so \<^verbatim>\<open>not session\<close> holds exactly when the dictionary has no entry. Each
  object is stored under one key only (line 137), so the update in place of the object that
  \<^verbatim>\<open>update_last_used\<close> performs changes the entry of \<open>session_id\<close> and no other.
\<close>

definition get_session :: "world \<Rightarrow> string \<Rightarrow> world \<times> session option" where
  "get_session w session_id =
     (case sessions w session_id of
        None \<Rightarrow> (w, None)
      | Some s \<Rightarrow>
          (case is_expired w s of
             (w1, True) \<Rightarrow> (w1\<lparr>sessions := (sessions w1)(session_id := None)\<rparr>, None)
           | (w1, False) \<Rightarrow>
               (case update_last_used w1 s of
                  (w2, s') \<Rightarrow> (w2\<lparr>sessions := (sessions w2)(session_id \<mapsto> s')\<rparr>, Some s'))))"

subsection \<open>Credential resolution\<close>

text \<open>The exceptions the code raises itself are all \<^verbatim>\<open>ValueError\<close>s, told apart by their
  message.\<close>

datatype error = ValueError string

text \<open>Truth value of an \<^verbatim>\<open>Optional[str]\<close>: \<^verbatim>\<open>None\<close> and the empty string are false.\<close>

definition truthy :: "string option \<Rightarrow> bool" where
  "truthy x = (case x of None \<Rightarrow> False | Some s \<Rightarrow> s \<noteq> [])"

text \<open>The keyword arguments handed to \<^verbatim>\<open>databricks.sql.connect\<close>.\<close>

record connect_args =
  server_hostname :: string
  http_path_arg :: string
  access_token :: string

text \<open>
  \<^verbatim>\<open>get_databricks_connection\<close> (lines 53-76). The call of \<^verbatim>\<open>connect\<close> at the end belongs
  to the SQL driver; the model returns the arguments of that call, or the error raised
  before it. The test \<^verbatim>\<open>if session_id:\<close> is a truth test: the empty string takes the
  \<^verbatim>\<open>else\<close> branch as \<^verbatim>\<open>None\<close> does. State changes made before an exception is raised
  stay, so the world is returned in both cases.
\<close>

definition get_databricks_connection ::
    "world \<Rightarrow> string option \<Rightarrow> world \<times> (error + connect_args)" where
  "get_databricks_connection w session_id =
     (case (if truthy session_id
            then (case get_session w (the session_id) of
                    (w1, None) \<Rightarrow> (w1, Inl (ValueError ''Invalid or expired session ID''))
                  | (w1, Some s) \<Rightarrow>
                      (w1, Inr (Some (host s), Some (token s), Some (http_path s))))
            else (w, Inr (getenv w ''DATABRICKS_HOST'', getenv w ''DATABRICKS_TOKEN'',
                          getenv w ''DATABRICKS_HTTP_PATH'')))
      of (w1, Inl e) \<Rightarrow> (w1, Inl e)
       | (w1, Inr (h, t, p)) \<Rightarrow>
           if \<not> (truthy h \<and> truthy t \<and> truthy p)
           then (w1, Inl (ValueError ''Missing required Databricks connection details''))
           else (w1, Inr \<lparr>server_hostname = the h, http_path_arg = the p,
                          access_token = the t\<rparr>))"

text \<open>
  \<^verbatim>\<open>databricks_api_request\<close>, lines 81-94: the resolution of host and token that precedes
  the HTTP request. Only these two values are resolved and tested; the HTTP path is not
  read. The result is the pair (host, token) the request is then built from, or the error
  raised.
\<close>

definition databricks_api_request_credentials ::
    "world \<Rightarrow> string option \<Rightarrow> world \<times> (error + string \<times> string)" where
  "databricks_api_request_credentials w session_id =
     (case (if truthy session_id
            then (case get_session w (the session_id) of
                    (w1, None) \<Rightarrow> (w1, Inl (ValueError ''Invalid or expired session ID''))
                  | (w1, Some s) \<Rightarrow> (w1, Inr (Some (host s), Some (token s))))
            else (w, Inr (getenv w ''DATABRICKS_HOST'', getenv w ''DATABRICKS_TOKEN'')))
      of (w1, Inl e) \<Rightarrow> (w1, Inl e)
       | (w1, Inr (h, t)) \<Rightarrow>
           if \<not> (truthy h \<and> truthy t)
           then (w1, Inl (ValueError ''Missing required Databricks API credentials''))
           else (w1, Inr (the h, the t)))"

subsection \<open>The session tools\<close>

text \<open>
  Each tool returns a message. The model returns which message it is, as a constructor,
  with the values the message interpolates.
\<close>

text \<open>The outcome of the statements of lines 126-133 of \<^verbatim>\<open>login\<close> (connect, open a cursor,
  run \<^verbatim>\<open>SELECT 1\<close>, close): they all return, or one raises an exception \<open>e\<close>, given by
  \<^verbatim>\<open>str(e)\<close>.\<close>

datatype probe = ProbeOk | ProbeRaised string

datatype login_result =
    Authenticated string string  \<comment> \<open>"Successfully authenticated ..." with host and session id\<close>
  | AuthenticationFailed string  \<comment> \<open>"Authentication failed: " followed by the exception text\<close>

text \<open>\<^verbatim>\<open>login\<close> (lines 115-149).\<close>

definition login :: "world \<Rightarrow> string \<Rightarrow> string \<Rightarrow> string \<Rightarrow> probe \<Rightarrow> world \<times> login_result" where
  "login w h t p pr =
     (case pr of
        ProbeRaised e \<Rightarrow> (w, AuthenticationFailed e)
      | ProbeOk \<Rightarrow>
          (case Session_init w h t p of
             (w1, s) \<Rightarrow> (w1\<lparr>sessions := (sessions w1)(id_s s \<mapsto> s)\<rparr>, Authenticated h (id_s s))))"

datatype logout_result =
    LoggedOut        \<comment> \<open>"Successfully logged out. Your session has been destroyed."\<close>
  | SessionNotFound  \<comment> \<open>"Session not found. It may have expired or been invalid."\<close>

text \<open>\<^verbatim>\<open>logout\<close> (lines 152-162).\<close>

definition logout :: "world \<Rightarrow> string \<Rightarrow> world \<times> logout_result" where
  "logout w session_id =
     (if session_id \<in> dom (sessions w)
      then (w\<lparr>sessions := (sessions w)(session_id := None)\<rparr>, LoggedOut)
      else (w, SessionNotFound))"

subsection \<open>Double precision arithmetic of the status message\<close>

text \<open>
  Line 177, \<^verbatim>\<open>int(expires_in.total_seconds() / 60)\<close>, is computed in floating point: the
  number of microseconds is divided by \<open>10^6\<close> and the quotient rounded to a double, that
  double is divided by 60 and rounded again, and \<^verbatim>\<open>int\<close> cuts the fraction off. Both
  divisions are correctly rounded (to the nearest double, ties to the even mantissa).
  A double is a rational \<open>m * 2^e\<close> with \<open>\<bar>m\<bar> < 2^53\<close>; the values that arise from a
  \<^verbatim>\<open>timedelta\<close> (at most \<open>10^9\<close> days) are far from the limits of the exponent, which the
  model therefore leaves unbounded.
\<close>

text \<open>Rounding a rational to the nearest integer, a tie to the even one.\<close>

definition round_half_even :: "rat \<Rightarrow> int" where
  "round_half_even x =
     (let f = \<lfloor>x\<rfloor> in
      if x - of_int f < 1 / 2 then f
      else if 1 / 2 < x - of_int f then f + 1
      else if even f then f else f + 1)"

text \<open>For \<open>x > 0\<close>, the exponent \<open>e\<close> with \<open>2^e \<le> x < 2^(e+1)\<close>, computed from the number of
  bits of the integer part of \<open>x\<close> or of \<open>1 / x\<close>.\<close>

definition floor_log2 :: "rat \<Rightarrow> int" where
  "floor_log2 x = (if 1 \<le> x then bitlen \<lfloor>x\<rfloor> - 1 else - bitlen (\<lceil>1 / x\<rceil> - 1))"

text \<open>The double nearest to \<open>x\<close>: \<open>\<bar>x\<bar>\<close> is rounded to a multiple of
  \<open>2^(e - 52)\<close>, which leaves a mantissa of 53 bits.\<close>

definition round_double :: "rat \<Rightarrow> rat" where
  "round_double x =
     (let u = 2 powi (floor_log2 \<bar>x\<bar> - 52)
      in sgn x * (of_int (round_half_even (\<bar>x\<bar> / u)) * u))"

text \<open>\<^verbatim>\<open>timedelta.total_seconds()\<close>: the microseconds divided by \<open>10^6\<close>, as a double.\<close>

definition total_seconds :: "timedelta \<Rightarrow> rat" where
  "total_seconds d = round_double (of_int d / 1000000)"

text \<open>The division \<^verbatim>\<open>/\<close> of two doubles.\<close>

definition float_div :: "rat \<Rightarrow> rat \<Rightarrow> rat" where
  "float_div a b = round_double (a / b)"

text \<open>\<^verbatim>\<open>int(x)\<close> of a double: the fraction is cut off, towards zero.\<close>

definition int_of_float :: "rat \<Rightarrow> int" where
  "int_of_float x = (if 0 \<le> x then \<lfloor>x\<rfloor> else \<lceil>x\<rceil>)"

datatype status_result =
    StatusNotFound  \<comment> \<open>"Session not found or expired. Please login again."\<close>
  | StatusActive string string datetime int
      \<comment> \<open>"Session Status" with session id, host, creation time and minutes left\<close>

text \<open>\<^verbatim>\<open>session_status\<close> (lines 165-188).\<close>

definition session_status :: "world \<Rightarrow> string \<Rightarrow> world \<times> status_result" where
  "session_status w session_id =
     (case get_session w session_id of
        (w1, None) \<Rightarrow> (w1, StatusNotFound)
      | (w1, Some s) \<Rightarrow>
          (case now w1 of
             (w2, t) \<Rightarrow>
               (w2, StatusActive (id_s s) (host s) (created_at s)
                      (int_of_float
                         (float_div (total_seconds (expiry s - (t - last_used s))) 60)))))"

subsection \<open>A client polling the status\<close>

text \<open>\<open>poll n\<close> calls \<^verbatim>\<open>session_status\<close> \<open>n\<close> times in a row on one identifier and
  collects the answers, the first call first.\<close>

fun poll :: "nat \<Rightarrow> world \<Rightarrow> string \<Rightarrow> world \<times> status_result list" where
  "poll 0 w session_id = (w, [])"
| "poll (Suc n) w session_id =
     (case session_status w session_id of
        (w1, r) \<Rightarrow> (case poll n w1 session_id of (w2, rs) \<Rightarrow> (w2, r # rs)))"

subsection \<open>Concrete states\<close>

text \<open>A session created at time 0 and last used at time 0.\<close>

definition session_ex :: session where
  "session_ex = \<lparr>id_s = ''S1'', host = ''h'', token = ''t'', http_path = ''p'',
                  created_at = 0, last_used = 0, expiry = timedelta_hours 1\<rparr>"

text \<open>A session that holds an empty HTTP path.\<close>

definition session_nopath :: session where
  "session_nopath = \<lparr>id_s = ''S2'', host = ''h'', token = ''t'', http_path = [],
                      created_at = 0, last_used = 0, expiry = timedelta_hours 1\<rparr>"

text \<open>The environment with all three entries, and with the HTTP path left out.\<close>

definition environ_full :: "string \<rightharpoonup> string" where
  "environ_full = [''DATABRICKS_HOST'' \<mapsto> ''eh'', ''DATABRICKS_TOKEN'' \<mapsto> ''et'',
                   ''DATABRICKS_HTTP_PATH'' \<mapsto> ''ep'']"

definition environ_nopath :: "string \<rightharpoonup> string" where
  "environ_nopath = [''DATABRICKS_HOST'' \<mapsto> ''eh'', ''DATABRICKS_TOKEN'' \<mapsto> ''et'']"

text \<open>The environment whose host entry is set to the empty string.\<close>

definition environ_emptyhost :: "string \<rightharpoonup> string" where
  "environ_emptyhost = [''DATABRICKS_HOST'' \<mapsto> [], ''DATABRICKS_TOKEN'' \<mapsto> ''et'',
                        ''DATABRICKS_HTTP_PATH'' \<mapsto> ''ep'']"

text \<open>Identifiers \<open>U\<close>, \<open>UU\<close>, \<open>UUU\<close>, ... in the order they are drawn.\<close>

definition uuids_ex :: "nat \<Rightarrow> string" where
  "uuids_ex n = replicate (Suc n) CHR ''U''"

text \<open>A store with the two sessions above and a clock that advances by one millisecond
  (1000 microseconds) from one reading to the next, starting at 1000.\<close>

definition world_ex :: world where
  "world_ex = \<lparr>sessions = [''S1'' \<mapsto> session_ex, ''S2'' \<mapsto> session_nopath],
                environ = environ_full,
                clock = (\<lambda>n. 1000 * (int n + 1)), ticks = 0, uuids = uuids_ex, drawn = 0\<rparr>"

text \<open>The same store read two hours later (7200 seconds).\<close>

definition world_late :: world where
  "world_late = world_ex\<lparr>clock := (\<lambda>n. 7200000000 + int n)\<rparr>"

text \<open>The same store under a clock that does not advance: every reading is 5.\<close>

definition world_stalled :: world where
  "world_stalled = world_ex\<lparr>clock := (\<lambda>n. 5)\<rparr>"

text \<open>The same store under a clock that advances by 25 minutes from one reading to the
  next, starting at 0.\<close>

definition world_slow :: world where
  "world_slow = world_ex\<lparr>clock := (\<lambda>n. 1500000000 * int n)\<rparr>"


subsection \<open>Sessions that keep their credentials\<close>

text \<open>\<open>credentials_kept w w'\<close>: every session stored in \<open>w'\<close> was stored in \<open>w\<close> under
  the same identifier, with the same \<open>id\<close>, \<open>host\<close>, \<open>token\<close> and \<open>http_path\<close>.\<close>

definition credentials_kept :: "world \<Rightarrow> world \<Rightarrow> bool" where
  "credentials_kept w w' =
     (\<forall>k s'. sessions w' k = Some s' \<longrightarrow>
        (\<exists>s. sessions w k = Some s \<and> id_s s' = id_s s \<and> host s' = host s
             \<and> token s' = token s \<and> http_path s' = http_path s))"

subsection \<open>The states the server reaches\<close>

text \<open>The state at start-up: line 18 creates the empty dictionary, no clock reading and no
  identifier has been taken yet. The environment, the clock and the source of identifiers
  are whatever the surroundings provide.\<close>

definition start :: "(string \<rightharpoonup> string) \<Rightarrow> (nat \<Rightarrow> datetime) \<Rightarrow> (nat \<Rightarrow> string) \<Rightarrow> world" where
  "start env c u =
     \<lparr>sessions = Map.empty, environ = env, clock = c, ticks = 0, uuids = u, drawn = 0\<rparr>"

text \<open>A state is reachable when calls of the functions above lead to it from start-up.\<close>

inductive reachable :: "world \<Rightarrow> bool" where
  at_start: "reachable (start env c u)"
| after_login: "reachable w \<Longrightarrow> reachable (fst (login w h t p pr))"
| after_logout: "reachable w \<Longrightarrow> reachable (fst (logout w k))"
| after_status: "reachable w \<Longrightarrow> reachable (fst (session_status w k))"
| after_get: "reachable w \<Longrightarrow> reachable (fst (get_session w k))"
| after_connection: "reachable w \<Longrightarrow> reachable (fst (get_databricks_connection w sid))"
| after_api_request:
    "reachable w \<Longrightarrow> reachable (fst (databricks_api_request_credentials w sid))"

text \<open>\<open>drawn_earlier w\<close>: every identifier in the store is one of the identifiers drawn so
  far.\<close>

definition drawn_earlier :: "world \<Rightarrow> bool" where
  "drawn_earlier w = (\<forall>k s. sessions w k = Some s \<longrightarrow> (\<exists>i<drawn w. k = uuids w i))"

text \<open>The state after start-up and one successful login, under the clock and the identifiers
  of the states above.\<close>

definition world_start :: world where
  "world_start = start environ_full (\<lambda>n. 1000 * (int n + 1)) uuids_ex"

definition world_one :: world where
  "world_one = fst (login world_start ''h'' ''t'' ''p'' ProbeOk)"

section \<open>Basic facts\<close>

lemma logout_absent: "sessions w k = None \<Longrightarrow> logout w k = (w, SessionNotFound)"
  by (simp add: logout_def dom_def)

lemma logout_present:
  "sessions w k = Some s \<Longrightarrow> logout w k = (w\<lparr>sessions := (sessions w)(k := None)\<rparr>, LoggedOut)"
  by (simp add: logout_def dom_def)

lemma get_session_absent: "sessions w k = None \<Longrightarrow> get_session w k = (w, None)"
  by (simp add: get_session_def)

lemma get_session_expired:
  "sessions w k = Some s \<Longrightarrow> clock w (ticks w) - last_used s > expiry s \<Longrightarrow>
   get_session w k = (w\<lparr>ticks := ticks w + 1, sessions := (sessions w)(k := None)\<rparr>, None)"
  by (simp add: get_session_def is_expired_def now_def)

lemma get_session_live:
  "sessions w k = Some s \<Longrightarrow> \<not> clock w (ticks w) - last_used s > expiry s \<Longrightarrow>
   get_session w k =
     (w\<lparr>ticks := ticks w + 2,
        sessions := (sessions w)(k \<mapsto> s\<lparr>last_used := clock w (ticks w + 1)\<rparr>)\<rparr>,
      Some (s\<lparr>last_used := clock w (ticks w + 1)\<rparr>))"
  by (simp add: get_session_def is_expired_def update_last_used_def now_def)

lemma get_session_cases:
  obtains (absent) "sessions w k = None" "get_session w k = (w, None)"
  | (expired) s where "sessions w k = Some s" "clock w (ticks w) - last_used s > expiry s"
      "get_session w k = (w\<lparr>ticks := ticks w + 1, sessions := (sessions w)(k := None)\<rparr>, None)"
  | (live) s where "sessions w k = Some s" "\<not> clock w (ticks w) - last_used s > expiry s"
      "get_session w k =
         (w\<lparr>ticks := ticks w + 2,
            sessions := (sessions w)(k \<mapsto> s\<lparr>last_used := clock w (ticks w + 1)\<rparr>)\<rparr>,
          Some (s\<lparr>last_used := clock w (ticks w + 1)\<rparr>))"
proof (cases "sessions w k")
  case None
  then show ?thesis using absent get_session_absent by blast
next
  case (Some s)
  show ?thesis
  proof (cases "clock w (ticks w) - last_used s > expiry s")
    case True
    then show ?thesis using expired Some get_session_expired by blast
  next
    case False
    then show ?thesis using live Some get_session_live by blast
  qed
qed

section \<open>The store lookup\<close>

text \<open>
  Claim C1. For every session identifier \<open>k\<close>, \<^verbatim>\<open>get_session\<close> behaves as follows.
  \<^item> If the store has no entry for \<open>k\<close>, it returns \<open>None\<close> and changes nothing.
  \<^item> If the entry is expired, that is the clock reading taken by \<^verbatim>\<open>is_expired\<close> is more
    than \<open>expiry\<close> after \<open>last_used\<close>, it deletes the entry and returns \<open>None\<close>; the
    next lookup of \<open>k\<close> returns \<open>None\<close> as well.
  \<^item> If the entry is live, it sets \<open>last_used\<close> to the clock reading taken by
    \<^verbatim>\<open>update_last_used\<close> (the reading after the one of the expiry test), stores the updated
    session under \<open>k\<close> and returns it.
\<close>

theorem get_session_lookup:
  "(sessions w k = None \<longrightarrow> get_session w k = (w, None))
   \<and> (\<forall>s. sessions w k = Some s \<and> clock w (ticks w) - last_used s > expiry s \<longrightarrow>
        get_session w k = (w\<lparr>ticks := ticks w + 1, sessions := (sessions w)(k := None)\<rparr>, None)
        \<and> sessions (fst (get_session w k)) k = None
        \<and> snd (get_session (fst (get_session w k)) k) = None)
   \<and> (\<forall>s. sessions w k = Some s \<and> \<not> clock w (ticks w) - last_used s > expiry s \<longrightarrow>
        get_session w k =
          (w\<lparr>ticks := ticks w + 2,
             sessions := (sessions w)(k \<mapsto> s\<lparr>last_used := clock w (ticks w + 1)\<rparr>)\<rparr>,
           Some (s\<lparr>last_used := clock w (ticks w + 1)\<rparr>))
        \<and> sessions (fst (get_session w k)) k = Some (s\<lparr>last_used := clock w (ticks w + 1)\<rparr>))"
proof (intro conjI allI impI)
  assume "sessions w k = None"
  then show "get_session w k = (w, None)" by (rule get_session_absent)
next
  fix s assume a: "sessions w k = Some s \<and> clock w (ticks w) - last_used s > expiry s"
  then show e: "get_session w k = (w\<lparr>ticks := ticks w + 1, sessions := (sessions w)(k := None)\<rparr>, None)"
    by (simp add: get_session_expired)
  then show g: "sessions (fst (get_session w k)) k = None" by simp
  then show "snd (get_session (fst (get_session w k)) k) = None"
    by (simp add: get_session_absent)
next
  fix s assume a: "sessions w k = Some s \<and> \<not> clock w (ticks w) - last_used s > expiry s"
  then show e: "get_session w k =
          (w\<lparr>ticks := ticks w + 2,
             sessions := (sessions w)(k \<mapsto> s\<lparr>last_used := clock w (ticks w + 1)\<rparr>)\<rparr>,
           Some (s\<lparr>last_used := clock w (ticks w + 1)\<rparr>))"
    by (simp add: get_session_live)
  then show "sessions (fst (get_session w k)) k = Some (s\<lparr>last_used := clock w (ticks w + 1)\<rparr>)"
    by simp
qed

lemma ex_simps:
  "sessions world_ex ''S1'' = Some session_ex"
  "sessions world_ex ''S2'' = Some session_nopath"
  "sessions world_ex ''S3'' = None"
  "sessions world_ex [] = None"
  "ticks world_ex = 0" "clock world_ex n = 1000 * (int n + 1)"
  "sessions world_late = sessions world_ex" "ticks world_late = 0"
  "clock world_late n = 7200000000 + int n"
  "last_used session_ex = 0" "expiry session_ex = 3600000000"
  by (simp_all add: world_ex_def world_late_def session_ex_def timedelta_hours_def)

theorem get_session_lookup_witness:
  "get_session world_ex ''S3'' = (world_ex, None)
   \<and> get_session world_late ''S1'' =
       (world_late\<lparr>ticks := 1, sessions := (sessions world_ex)(''S1'' := None)\<rparr>, None)
   \<and> snd (get_session (fst (get_session world_late ''S1'')) ''S1'') = None
   \<and> get_session world_ex ''S1'' =
       (world_ex\<lparr>ticks := 2, sessions := (sessions world_ex)(''S1'' \<mapsto> session_ex\<lparr>last_used := 2000\<rparr>)\<rparr>,
        Some (session_ex\<lparr>last_used := 2000\<rparr>))"
proof -
  have absent: "sessions world_ex ''S3'' = None"
    by (simp add: ex_simps)
  have expired: "sessions world_late ''S1'' = Some session_ex
      \<and> clock world_late (ticks world_late) - last_used session_ex > expiry session_ex"
    by (simp add: ex_simps)
  have live: "sessions world_ex ''S1'' = Some session_ex
      \<and> \<not> clock world_ex (ticks world_ex) - last_used session_ex > expiry session_ex"
    by (simp add: ex_simps)
  note a = get_session_lookup [of world_ex "''S3''", THEN conjunct1, rule_format, OF absent]
  note b = get_session_lookup [of world_late "''S1''", THEN conjunct2, THEN conjunct1,
      rule_format, OF expired]
  note c = get_session_lookup [of world_ex "''S1''", THEN conjunct2, THEN conjunct2,
      rule_format, OF live]
  have b1: "get_session world_late ''S1'' =
       (world_late\<lparr>ticks := 1, sessions := (sessions world_ex)(''S1'' := None)\<rparr>, None)"
    using b [THEN conjunct1] by (simp add: ex_simps)
  have c1: "get_session world_ex ''S1'' =
       (world_ex\<lparr>ticks := 2, sessions := (sessions world_ex)(''S1'' \<mapsto> session_ex\<lparr>last_used := 2000\<rparr>)\<rparr>,
        Some (session_ex\<lparr>last_used := 2000\<rparr>))"
    using c [THEN conjunct1] by (simp add: ex_simps)
  from a b1 b [THEN conjunct2, THEN conjunct2] c1 show ?thesis
    by (intro conjI)
qed

section \<open>Logout\<close>

text \<open>
  Claim C7. \<^verbatim>\<open>logout\<close> removes the entry of the identifier when there is one and reports
  whether there was one: "logged out" when a session was stored under it, "not found"
  otherwise, in which case nothing changes. It has no failing branch. It changes no other
  entry, and a second \<^verbatim>\<open>logout\<close> of the same identifier reports "not found" and leaves the
  state as the first one left it.
\<close>

theorem logout_deletes_and_reports:
  "(\<forall>s. sessions w k = Some s \<longrightarrow>
      logout w k = (w\<lparr>sessions := (sessions w)(k := None)\<rparr>, LoggedOut))
   \<and> (sessions w k = None \<longrightarrow> logout w k = (w, SessionNotFound))
   \<and> sessions (fst (logout w k)) k = None
   \<and> (\<forall>k'. k' \<noteq> k \<longrightarrow> sessions (fst (logout w k)) k' = sessions w k')
   \<and> logout (fst (logout w k)) k = (fst (logout w k), SessionNotFound)"
proof -
  have gone: "sessions (fst (logout w k)) k = None"
    by (auto simp add: logout_def)
  have others: "\<forall>k'. k' \<noteq> k \<longrightarrow> sessions (fst (logout w k)) k' = sessions w k'"
    by (simp add: logout_def)
  from gone have again: "logout (fst (logout w k)) k = (fst (logout w k), SessionNotFound)"
    by (rule logout_absent)
  from gone others again show ?thesis
    by (simp add: logout_absent logout_present)
qed

theorem logout_deletes_and_reports_witness:
  "logout world_ex ''S1'' = (world_ex\<lparr>sessions := (sessions world_ex)(''S1'' := None)\<rparr>, LoggedOut)
   \<and> logout world_ex ''S3'' = (world_ex, SessionNotFound)
   \<and> sessions (fst (logout world_ex ''S1'')) ''S2'' = Some session_nopath
   \<and> snd (logout (fst (logout world_ex ''S1'')) ''S1'') = SessionNotFound"
proof -
  have present: "sessions world_ex ''S1'' = Some session_ex"
    by (simp add: ex_simps)
  have absent: "sessions world_ex ''S3'' = None"
    by (simp add: ex_simps)
  have other: "''S2'' \<noteq> ''S1''"
    by simp
  note first = logout_deletes_and_reports [of world_ex "''S1''"]
  note a = first [THEN conjunct1, rule_format, OF present]
  note b = logout_deletes_and_reports [of world_ex "''S3''", THEN conjunct2, THEN conjunct1,
      rule_format, OF absent]
  have c: "sessions (fst (logout world_ex ''S1'')) ''S2'' = Some session_nopath"
    using first [THEN conjunct2, THEN conjunct2, THEN conjunct2, THEN conjunct1, rule_format,
        OF other]
    by (simp add: ex_simps)
  have d: "snd (logout (fst (logout world_ex ''S1'')) ''S1'') = SessionNotFound"
    using first [THEN conjunct2, THEN conjunct2, THEN conjunct2, THEN conjunct2] by simp
  from a b c d show ?thesis
    by (intro conjI)
qed

section \<open>Login\<close>

lemma login_failed: "login w h t p (ProbeRaised e) = (w, AuthenticationFailed e)"
  by (simp add: login_def)

lemma login_ok:
  "login w h t p ProbeOk =
     (w\<lparr>drawn := drawn w + 1, ticks := ticks w + 2,
        sessions := (sessions w)(uuids w (drawn w) \<mapsto>
          \<lparr>id_s = uuids w (drawn w), host = h, token = t, http_path = p,
           created_at = clock w (ticks w), last_used = clock w (ticks w + 1),
           expiry = timedelta_hours 1\<rparr>)\<rparr>,
      Authenticated h (uuids w (drawn w)))"
  by (simp add: login_def Session_init_def uuid4_def now_def)

text \<open>
  Claim C4. When the probe of \<^verbatim>\<open>login\<close> raises an exception, whatever the credentials and
  whatever the exception, \<^verbatim>\<open>login\<close> answers "Authentication failed" with the text of that
  exception and leaves the whole state, the session store included, as it was. Conversely
  "Authentication failed" is answered in that case only, so no failed login registers a
  session.
\<close>

theorem login_failure_keeps_store:
  "login w h t p (ProbeRaised e) = (w, AuthenticationFailed e)
   \<and> (\<forall>pr w' e'. login w h t p pr = (w', AuthenticationFailed e') \<longrightarrow>
        pr = ProbeRaised e' \<and> w' = w \<and> sessions w' = sessions w)"
proof (intro conjI allI impI)
  show "login w h t p (ProbeRaised e) = (w, AuthenticationFailed e)"
    by (rule login_failed)
next
  fix pr w' e'
  assume failed: "login w h t p pr = (w', AuthenticationFailed e')"
  show "pr = ProbeRaised e'"
  proof (cases pr)
    case ProbeOk
    with failed show ?thesis by (simp add: login_ok)
  next
    case (ProbeRaised x)
    with failed show ?thesis by (simp add: login_failed)
  qed
  with failed show "w' = w" by (simp add: login_failed)
  then show "sessions w' = sessions w" by simp
qed

theorem login_failure_keeps_store_witness:
  "login world_ex ''h'' ''t'' ''p'' (ProbeRaised ''timeout'') =
     (world_ex, AuthenticationFailed ''timeout'')
   \<and> sessions (fst (login world_ex ''h'' ''t'' ''p'' (ProbeRaised ''timeout''))) =
       sessions world_ex"
proof -
  note a = login_failure_keeps_store [of world_ex "''h''" "''t''" "''p''" "''timeout''",
      THEN conjunct1]
  note b = login_failure_keeps_store [of world_ex "''h''" "''t''" "''p''" "''timeout''",
      THEN conjunct2, rule_format, OF a]
  from a b show ?thesis by simp
qed

section \<open>Credential resolution\<close>

lemma truthy_simps:
  "truthy None = False" "truthy (Some s) = (s \<noteq> [])"
  by (simp_all add: truthy_def)

lemma connection_from_environ:
  "\<not> truthy sid \<Longrightarrow>
   get_databricks_connection w sid =
     (w, if truthy (environ w ''DATABRICKS_HOST'') \<and> truthy (environ w ''DATABRICKS_TOKEN'')
            \<and> truthy (environ w ''DATABRICKS_HTTP_PATH'')
         then Inr \<lparr>server_hostname = the (environ w ''DATABRICKS_HOST''),
                   http_path_arg = the (environ w ''DATABRICKS_HTTP_PATH''),
                   access_token = the (environ w ''DATABRICKS_TOKEN'')\<rparr>
         else Inl (ValueError ''Missing required Databricks connection details''))"
  by (simp add: get_databricks_connection_def getenv_def)

lemma api_credentials_from_environ:
  "\<not> truthy sid \<Longrightarrow>
   databricks_api_request_credentials w sid =
     (w, if truthy (environ w ''DATABRICKS_HOST'') \<and> truthy (environ w ''DATABRICKS_TOKEN'')
         then Inr (the (environ w ''DATABRICKS_HOST''), the (environ w ''DATABRICKS_TOKEN''))
         else Inl (ValueError ''Missing required Databricks API credentials''))"
  by (simp add: databricks_api_request_credentials_def getenv_def)

lemma connection_from_session:
  "sid \<noteq> [] \<Longrightarrow>
   get_databricks_connection w (Some sid) =
     (fst (get_session w sid),
      case snd (get_session w sid) of
        None \<Rightarrow> Inl (ValueError ''Invalid or expired session ID'')
      | Some s \<Rightarrow>
          if host s \<noteq> [] \<and> token s \<noteq> [] \<and> http_path s \<noteq> []
          then Inr \<lparr>server_hostname = host s, http_path_arg = http_path s,
                    access_token = token s\<rparr>
          else Inl (ValueError ''Missing required Databricks connection details''))"
  by (simp add: get_databricks_connection_def truthy_simps split: prod.splits option.splits)

lemma api_credentials_from_session:
  "sid \<noteq> [] \<Longrightarrow>
   databricks_api_request_credentials w (Some sid) =
     (fst (get_session w sid),
      case snd (get_session w sid) of
        None \<Rightarrow> Inl (ValueError ''Invalid or expired session ID'')
      | Some s \<Rightarrow>
          if host s \<noteq> [] \<and> token s \<noteq> []
          then Inr (host s, token s)
          else Inl (ValueError ''Missing required Databricks API credentials''))"
  by (simp add: databricks_api_request_credentials_def truthy_simps
      split: prod.splits option.splits)

lemma get_session_none_iff:
  "snd (get_session w k) = None \<longleftrightarrow>
   sessions w k = None \<or> (\<exists>s. sessions w k = Some s \<and> clock w (ticks w) - last_used s > expiry s)"
  by (cases rule: get_session_cases [of w k]) auto

text \<open>
  Claim C3 as stated, "with no session id, the three environment values are returned
  verbatim when all are present, and resolution fails with the missing-credentials error
  when any one of the three is missing, for every operation that falls back to the
  environment", does not hold: \<^verbatim>\<open>databricks_api_request\<close> reads and tests only the host
  and the token, so it resolves them when \<^verbatim>\<open>DATABRICKS_HTTP_PATH\<close> is not set; and an entry
  that is set to the empty string counts as missing, so \<^verbatim>\<open>get_databricks_connection\<close>
  fails although all three entries are set.
\<close>

theorem environ_fallback_counterexample:
  "environ_nopath ''DATABRICKS_HTTP_PATH'' = None
   \<and> databricks_api_request_credentials (world_ex\<lparr>environ := environ_nopath\<rparr>) None =
       (world_ex\<lparr>environ := environ_nopath\<rparr>, Inr (''eh'', ''et''))
   \<and> environ_emptyhost ''DATABRICKS_HOST'' = Some ''''
   \<and> environ_emptyhost ''DATABRICKS_TOKEN'' = Some ''et''
   \<and> environ_emptyhost ''DATABRICKS_HTTP_PATH'' = Some ''ep''
   \<and> get_databricks_connection (world_ex\<lparr>environ := environ_emptyhost\<rparr>) None =
       (world_ex\<lparr>environ := environ_emptyhost\<rparr>,
        Inl (ValueError ''Missing required Databricks connection details''))"
  by (simp add: connection_from_environ api_credentials_from_environ truthy_simps
      environ_nopath_def environ_emptyhost_def)

text \<open>
  Claim C3, amended. With no session id, \<^verbatim>\<open>get_databricks_connection\<close> hands the host,
  token and HTTP path of the environment to \<^verbatim>\<open>connect\<close> unchanged when all three are set
  and not empty, and raises the \<^verbatim>\<open>ValueError\<close> "Missing required Databricks connection
  details" when one of them is unset or empty. \<^verbatim>\<open>databricks_api_request\<close> resolves the host
  and the token only: it takes them unchanged when both are set and not empty, whatever
  the HTTP path entry is, and raises the \<^verbatim>\<open>ValueError\<close> "Missing required Databricks API
  credentials" when one of the two is unset or empty. Neither changes the state.
\<close>

theorem environ_fallback:
  "(\<forall>h t p. environ w ''DATABRICKS_HOST'' = Some h \<and> environ w ''DATABRICKS_TOKEN'' = Some t
        \<and> environ w ''DATABRICKS_HTTP_PATH'' = Some p \<and> h \<noteq> [] \<and> t \<noteq> [] \<and> p \<noteq> [] \<longrightarrow>
      get_databricks_connection w None =
        (w, Inr \<lparr>server_hostname = h, http_path_arg = p, access_token = t\<rparr>))
   \<and> (\<not> truthy (environ w ''DATABRICKS_HOST'') \<or> \<not> truthy (environ w ''DATABRICKS_TOKEN'')
        \<or> \<not> truthy (environ w ''DATABRICKS_HTTP_PATH'') \<longrightarrow>
      get_databricks_connection w None =
        (w, Inl (ValueError ''Missing required Databricks connection details'')))
   \<and> (\<forall>h t. environ w ''DATABRICKS_HOST'' = Some h \<and> environ w ''DATABRICKS_TOKEN'' = Some t
        \<and> h \<noteq> [] \<and> t \<noteq> [] \<longrightarrow>
      databricks_api_request_credentials w None = (w, Inr (h, t)))
   \<and> (\<not> truthy (environ w ''DATABRICKS_HOST'') \<or> \<not> truthy (environ w ''DATABRICKS_TOKEN'') \<longrightarrow>
      databricks_api_request_credentials w None =
        (w, Inl (ValueError ''Missing required Databricks API credentials'')))"
proof -
  have none: "\<not> truthy None"
    by (simp add: truthy_simps)
  show ?thesis
  proof (intro conjI allI impI)
    fix h t p
    assume "environ w ''DATABRICKS_HOST'' = Some h \<and> environ w ''DATABRICKS_TOKEN'' = Some t
        \<and> environ w ''DATABRICKS_HTTP_PATH'' = Some p \<and> h \<noteq> [] \<and> t \<noteq> [] \<and> p \<noteq> []"
    then show "get_databricks_connection w None =
        (w, Inr \<lparr>server_hostname = h, http_path_arg = p, access_token = t\<rparr>)"
      by (simp add: connection_from_environ [OF none] truthy_simps)
  next
    assume "\<not> truthy (environ w ''DATABRICKS_HOST'') \<or> \<not> truthy (environ w ''DATABRICKS_TOKEN'')
        \<or> \<not> truthy (environ w ''DATABRICKS_HTTP_PATH'')"
    then show "get_databricks_connection w None =
        (w, Inl (ValueError ''Missing required Databricks connection details''))"
      by (auto simp add: connection_from_environ [OF none])
  next
    fix h t
    assume "environ w ''DATABRICKS_HOST'' = Some h \<and> environ w ''DATABRICKS_TOKEN'' = Some t
        \<and> h \<noteq> [] \<and> t \<noteq> []"
    then show "databricks_api_request_credentials w None = (w, Inr (h, t))"
      by (simp add: api_credentials_from_environ [OF none] truthy_simps)
  next
    assume "\<not> truthy (environ w ''DATABRICKS_HOST'') \<or> \<not> truthy (environ w ''DATABRICKS_TOKEN'')"
    then show "databricks_api_request_credentials w None =
        (w, Inl (ValueError ''Missing required Databricks API credentials''))"
      by (auto simp add: api_credentials_from_environ [OF none])
  qed
qed

theorem environ_fallback_witness:
  "get_databricks_connection world_ex None =
     (world_ex, Inr \<lparr>server_hostname = ''eh'', http_path_arg = ''ep'', access_token = ''et''\<rparr>)
   \<and> get_databricks_connection (world_ex\<lparr>environ := environ_nopath\<rparr>) None =
       (world_ex\<lparr>environ := environ_nopath\<rparr>,
        Inl (ValueError ''Missing required Databricks connection details''))
   \<and> databricks_api_request_credentials (world_ex\<lparr>environ := environ_nopath\<rparr>) None =
       (world_ex\<lparr>environ := environ_nopath\<rparr>, Inr (''eh'', ''et''))
   \<and> databricks_api_request_credentials (world_ex\<lparr>environ := environ_emptyhost\<rparr>) None =
       (world_ex\<lparr>environ := environ_emptyhost\<rparr>,
        Inl (ValueError ''Missing required Databricks API credentials''))"
proof -
  let ?np = "world_ex\<lparr>environ := environ_nopath\<rparr>"
  let ?eh = "world_ex\<lparr>environ := environ_emptyhost\<rparr>"
  have full: "environ world_ex ''DATABRICKS_HOST'' = Some ''eh''
      \<and> environ world_ex ''DATABRICKS_TOKEN'' = Some ''et''
      \<and> environ world_ex ''DATABRICKS_HTTP_PATH'' = Some ''ep''
      \<and> ''eh'' \<noteq> [] \<and> ''et'' \<noteq> [] \<and> ''ep'' \<noteq> []"
    by (simp add: world_ex_def environ_full_def)
  have nopath: "\<not> truthy (environ ?np ''DATABRICKS_HOST'')
      \<or> \<not> truthy (environ ?np ''DATABRICKS_TOKEN'')
      \<or> \<not> truthy (environ ?np ''DATABRICKS_HTTP_PATH'')"
    by (simp add: environ_nopath_def truthy_simps)
  have two: "environ ?np ''DATABRICKS_HOST'' = Some ''eh''
      \<and> environ ?np ''DATABRICKS_TOKEN'' = Some ''et'' \<and> ''eh'' \<noteq> [] \<and> ''et'' \<noteq> []"
    by (simp add: environ_nopath_def)
  have nohost: "\<not> truthy (environ ?eh ''DATABRICKS_HOST'')
      \<or> \<not> truthy (environ ?eh ''DATABRICKS_TOKEN'')"
    by (simp add: environ_emptyhost_def truthy_simps)
  note a = environ_fallback [of world_ex, THEN conjunct1, rule_format, OF full]
  note b = environ_fallback [of ?np, THEN conjunct2, THEN conjunct1, THEN mp, OF nopath]
  note c = environ_fallback [of ?np, THEN conjunct2, THEN conjunct2, THEN conjunct1,
      rule_format, OF two]
  note d = environ_fallback [of ?eh, THEN conjunct2, THEN conjunct2, THEN conjunct2,
      THEN mp, OF nohost]
  from a b c d show ?thesis
    by (intro conjI)
qed

text \<open>
  Claim C2 as stated, "with a session id present, resolution fails with the invalid-session
  error when the lookup finds nothing or an expired session, and otherwise returns exactly
  the host, token and HTTP path stored in the session", does not hold for every session
  id. The test of line 55 is a truth test, so the empty string is a session id that is
  present, that the store does not hold, and for which resolution does not fail: it
  returns the credentials of the environment. And a live session that holds an empty
  credential is not returned: the test of line 69 raises the missing-details error.
\<close>

theorem session_resolution_counterexample:
  "snd (get_session world_ex '''') = None
   \<and> get_databricks_connection world_ex (Some '''') =
       (world_ex, Inr \<lparr>server_hostname = ''eh'', http_path_arg = ''ep'', access_token = ''et''\<rparr>)
   \<and> databricks_api_request_credentials world_ex (Some '''') = (world_ex, Inr (''eh'', ''et''))
   \<and> snd (get_session world_ex ''S2'') = Some (session_nopath\<lparr>last_used := 2000\<rparr>)
   \<and> snd (get_databricks_connection world_ex (Some ''S2'')) =
       Inl (ValueError ''Missing required Databricks connection details'')"
proof -
  have empty: "\<not> truthy (Some '''')"
    by (simp add: truthy_simps)
  have env: "environ world_ex ''DATABRICKS_HOST'' = Some ''eh''"
    "environ world_ex ''DATABRICKS_TOKEN'' = Some ''et''"
    "environ world_ex ''DATABRICKS_HTTP_PATH'' = Some ''ep''"
    by (simp_all add: world_ex_def environ_full_def)
  have live: "sessions world_ex ''S2'' = Some session_nopath"
    "\<not> clock world_ex (ticks world_ex) - last_used session_nopath > expiry session_nopath"
    by (simp_all add: ex_simps session_nopath_def timedelta_hours_def)
  have a: "snd (get_session world_ex '''') = None"
    by (simp add: get_session_absent ex_simps)
  have b: "get_databricks_connection world_ex (Some '''') =
       (world_ex, Inr \<lparr>server_hostname = ''eh'', http_path_arg = ''ep'', access_token = ''et''\<rparr>)"
    by (simp add: connection_from_environ [OF empty] env truthy_simps)
  have c: "databricks_api_request_credentials world_ex (Some '''') = (world_ex, Inr (''eh'', ''et''))"
    by (simp add: api_credentials_from_environ [OF empty] env truthy_simps)
  have d: "snd (get_session world_ex ''S2'') = Some (session_nopath\<lparr>last_used := 2000\<rparr>)"
    by (simp add: get_session_live [OF live] ex_simps)
  have e: "snd (get_databricks_connection world_ex (Some ''S2'')) =
       Inl (ValueError ''Missing required Databricks connection details'')"
    by (simp add: connection_from_session d) (simp add: session_nopath_def)
  from a b c d e show ?thesis
    by (intro conjI)
qed

text \<open>
  Claim C2, amended. For every call to credential resolution with a session id that is not
  the empty string, resolution performs the store lookup \<^verbatim>\<open>get_session\<close> and keeps its
  effect on the state. If the store holds no session under the id, or an expired one,
  resolution raises the \<^verbatim>\<open>ValueError\<close> "Invalid or expired session ID". Otherwise
  \<^verbatim>\<open>get_databricks_connection\<close> hands exactly the host, token and HTTP path stored in the
  session to \<^verbatim>\<open>connect\<close> when none of the three is empty (it raises "Missing required
  Databricks connection details" when one is), and \<^verbatim>\<open>databricks_api_request\<close> takes exactly
  the stored host and token when neither is empty (it raises "Missing required Databricks
  API credentials" when one is).
\<close>

theorem session_resolution:
  "sid \<noteq> [] \<longrightarrow>
     fst (get_databricks_connection w (Some sid)) = fst (get_session w sid)
     \<and> fst (databricks_api_request_credentials w (Some sid)) = fst (get_session w sid)
     \<and> (sessions w sid = None
          \<or> (\<exists>s. sessions w sid = Some s \<and> clock w (ticks w) - last_used s > expiry s) \<longrightarrow>
         snd (get_databricks_connection w (Some sid)) =
           Inl (ValueError ''Invalid or expired session ID'')
         \<and> snd (databricks_api_request_credentials w (Some sid)) =
           Inl (ValueError ''Invalid or expired session ID''))
     \<and> (\<forall>s. sessions w sid = Some s \<and> \<not> clock w (ticks w) - last_used s > expiry s \<longrightarrow>
          snd (get_databricks_connection w (Some sid)) =
            (if host s \<noteq> [] \<and> token s \<noteq> [] \<and> http_path s \<noteq> []
             then Inr \<lparr>server_hostname = host s, http_path_arg = http_path s,
                       access_token = token s\<rparr>
             else Inl (ValueError ''Missing required Databricks connection details''))
          \<and> snd (databricks_api_request_credentials w (Some sid)) =
            (if host s \<noteq> [] \<and> token s \<noteq> []
             then Inr (host s, token s)
             else Inl (ValueError ''Missing required Databricks API credentials'')))"
proof (intro impI conjI allI)
  assume given: "sid \<noteq> []"
  then show "fst (get_databricks_connection w (Some sid)) = fst (get_session w sid)"
    by (simp add: connection_from_session)
  from given show "fst (databricks_api_request_credentials w (Some sid)) = fst (get_session w sid)"
    by (simp add: api_credentials_from_session)
  {
    assume "sessions w sid = None
        \<or> (\<exists>s. sessions w sid = Some s \<and> clock w (ticks w) - last_used s > expiry s)"
    then have none: "snd (get_session w sid) = None"
      by (simp only: get_session_none_iff)
    from given none show "snd (get_databricks_connection w (Some sid)) =
        Inl (ValueError ''Invalid or expired session ID'')"
      by (simp add: connection_from_session)
    from given none show "snd (databricks_api_request_credentials w (Some sid)) =
        Inl (ValueError ''Invalid or expired session ID'')"
      by (simp add: api_credentials_from_session)
  }
  {
    fix s
    assume "sessions w sid = Some s \<and> \<not> clock w (ticks w) - last_used s > expiry s"
    then have found: "snd (get_session w sid) = Some (s\<lparr>last_used := clock w (ticks w + 1)\<rparr>)"
      by (simp add: get_session_live)
    from given found show "snd (get_databricks_connection w (Some sid)) =
        (if host s \<noteq> [] \<and> token s \<noteq> [] \<and> http_path s \<noteq> []
         then Inr \<lparr>server_hostname = host s, http_path_arg = http_path s,
                   access_token = token s\<rparr>
         else Inl (ValueError ''Missing required Databricks connection details''))"
      by (simp add: connection_from_session)
    from given found show "snd (databricks_api_request_credentials w (Some sid)) =
        (if host s \<noteq> [] \<and> token s \<noteq> []
         then Inr (host s, token s)
         else Inl (ValueError ''Missing required Databricks API credentials''))"
      by (simp add: api_credentials_from_session)
  }
qed

theorem session_resolution_witness:
  "snd (get_databricks_connection world_ex (Some ''S3'')) =
     Inl (ValueError ''Invalid or expired session ID'')
   \<and> snd (get_databricks_connection world_late (Some ''S1'')) =
     Inl (ValueError ''Invalid or expired session ID'')
   \<and> snd (databricks_api_request_credentials world_late (Some ''S1'')) =
     Inl (ValueError ''Invalid or expired session ID'')
   \<and> snd (get_databricks_connection world_ex (Some ''S1'')) =
     Inr \<lparr>server_hostname = ''h'', http_path_arg = ''p'', access_token = ''t''\<rparr>
   \<and> snd (databricks_api_request_credentials world_ex (Some ''S1'')) = Inr (''h'', ''t'')"
proof -
  have id3: "''S3'' \<noteq> []" and id1: "''S1'' \<noteq> []"
    by simp_all
  have absent: "sessions world_ex ''S3'' = None
      \<or> (\<exists>s. sessions world_ex ''S3'' = Some s
            \<and> clock world_ex (ticks world_ex) - last_used s > expiry s)"
    by (simp add: ex_simps)
  have expired: "sessions world_late ''S1'' = None
      \<or> (\<exists>s. sessions world_late ''S1'' = Some s
            \<and> clock world_late (ticks world_late) - last_used s > expiry s)"
    by (simp add: ex_simps)
  have live: "sessions world_ex ''S1'' = Some session_ex
      \<and> \<not> clock world_ex (ticks world_ex) - last_used session_ex > expiry session_ex"
    by (simp add: ex_simps)
  note r3 = session_resolution [of "''S3''" world_ex, THEN mp, OF id3]
  note rl = session_resolution [of "''S1''" world_late, THEN mp, OF id1]
  note r1 = session_resolution [of "''S1''" world_ex, THEN mp, OF id1]
  note a = r3 [THEN conjunct2, THEN conjunct2, THEN conjunct1, THEN mp, OF absent, THEN conjunct1]
  note b = rl [THEN conjunct2, THEN conjunct2, THEN conjunct1, THEN mp, OF expired]
  note c = r1 [THEN conjunct2, THEN conjunct2, THEN conjunct2, THEN spec, THEN mp, OF live]
  have c1: "snd (get_databricks_connection world_ex (Some ''S1'')) =
     Inr \<lparr>server_hostname = ''h'', http_path_arg = ''p'', access_token = ''t''\<rparr>"
    using c [THEN conjunct1] by (simp add: session_ex_def)
  have c2: "snd (databricks_api_request_credentials world_ex (Some ''S1'')) = Inr (''h'', ''t'')"
    using c [THEN conjunct2] by (simp add: session_ex_def)
  from a b [THEN conjunct1] b [THEN conjunct2] c1 c2 show ?thesis
    by (intro conjI)
qed

section \<open>Double precision: when the minutes are exact\<close>

text \<open>
  Rounding to the nearest double never crosses a double: when \<open>x\<close> lies on one side of a
  number \<open>m * 2^f\<close> with \<open>m < 2^53\<close>, so does the double nearest to \<open>x\<close>. Two such numbers
  enclose the seconds, two more the minutes, closely enough to fix the whole minutes of
  every duration below \<open>2^27\<close> minutes (about 255 years): they are the exact quotient.
  Further out the double arithmetic shows; the last lemma evaluates the model at a duration
  of about 570 years, where it yields one minute more than the exact quotient.
\<close>

lemma round_half_even_ge: "of_int n \<le> x \<Longrightarrow> n \<le> round_half_even x"
proof -
  assume "of_int n \<le> x"
  then have "n \<le> \<lfloor>x\<rfloor>"
    by (simp add: le_floor_iff)
  moreover have "\<lfloor>x\<rfloor> \<le> round_half_even x"
    by (simp add: round_half_even_def Let_def)
  ultimately show ?thesis
    by simp
qed

lemma round_half_even_le: "x \<le> of_int n \<Longrightarrow> round_half_even x \<le> n"
proof (cases "x = of_int \<lfloor>x\<rfloor>")
  case True
  assume "x \<le> of_int n"
  with True have "\<lfloor>x\<rfloor> \<le> n"
    by (metis of_int_le_iff)
  moreover from True have "round_half_even x = \<lfloor>x\<rfloor>"
    by (simp add: round_half_even_def Let_def)
  ultimately show ?thesis
    by simp
next
  case False
  assume "x \<le> of_int n"
  moreover have "of_int \<lfloor>x\<rfloor> < x"
    using of_int_floor_le False [THEN not_sym] by (rule le_neq_trans)
  ultimately have "(of_int \<lfloor>x\<rfloor> :: rat) < of_int n"
    by (rule less_le_trans [rotated])
  then have "\<lfloor>x\<rfloor> + 1 \<le> n"
    by simp
  moreover have "round_half_even x \<le> \<lfloor>x\<rfloor> + 1"
    by (simp add: round_half_even_def Let_def)
  ultimately show ?thesis
    by simp
qed

lemma powi_nat: "0 \<le> k \<Longrightarrow> (2::rat) powi k = of_int (2 ^ nat k)"
  by (simp add: power_int_def)

lemma bitlen_pos: "0 < n \<Longrightarrow> 1 \<le> bitlen n"
  using bitlen_eq_zero_iff [of n] bitlen_nonneg [of n] by linarith

lemma floor_log2_lower:
  assumes "0 < x"
  shows "2 powi floor_log2 x \<le> x"
proof (cases "1 \<le> x")
  case True
  then have n: "0 < \<lfloor>x\<rfloor>"
    by simp
  let ?b = "bitlen \<lfloor>x\<rfloor>"
  from n have b: "1 \<le> ?b"
    by (rule bitlen_pos)
  from bitlen_bounds [OF n] have "2 ^ nat (?b - 1) \<le> \<lfloor>x\<rfloor>"
    by simp
  then have "(of_int (2 ^ nat (?b - 1)) :: rat) \<le> of_int \<lfloor>x\<rfloor>"
    by (simp only: of_int_le_iff)
  also have "\<dots> \<le> x"
    by simp
  finally have "(2::rat) powi (?b - 1) \<le> x"
    using b by (simp add: powi_nat)
  with True show ?thesis
    by (simp add: floor_log2_def)
next
  case False
  let ?z = "1 / x"
  let ?c = "\<lceil>?z\<rceil> - 1"
  let ?b = "bitlen ?c"
  from False assms have z: "1 < ?z"
    by simp
  then have c: "0 < ?c"
    by (simp add: less_ceiling_iff)
  then have b: "1 \<le> ?b"
    by (rule bitlen_pos)
  from bitlen_bounds [OF c] have "?c < 2 ^ nat ?b"
    by simp
  then have "\<lceil>?z\<rceil> \<le> 2 ^ nat ?b"
    by simp
  then have "(of_int \<lceil>?z\<rceil> :: rat) \<le> of_int (2 ^ nat ?b)"
    by (simp only: of_int_le_iff)
  moreover have "?z \<le> of_int \<lceil>?z\<rceil>"
    by simp
  ultimately have "?z \<le> of_int (2 ^ nat ?b)"
    by (rule order_trans [rotated])
  then have "?z \<le> 2 powi ?b"
    using b by (simp add: powi_nat)
  then have "1 \<le> x * 2 powi ?b"
    using assms by (simp add: field_simps)
  then have "inverse (2 powi ?b) \<le> x"
    by (simp add: field_simps)
  then have "(2::rat) powi (- ?b) \<le> x"
    by (simp add: power_int_minus)
  with False show ?thesis
    by (simp add: floor_log2_def)
qed

lemma floor_log2_upper:
  assumes "0 < x"
  shows "x < 2 powi (floor_log2 x + 1)"
proof (cases "1 \<le> x")
  case True
  then have n: "0 < \<lfloor>x\<rfloor>"
    by simp
  let ?b = "bitlen \<lfloor>x\<rfloor>"
  from n have b: "1 \<le> ?b"
    by (rule bitlen_pos)
  from bitlen_bounds [OF n] have "\<lfloor>x\<rfloor> + 1 \<le> 2 ^ nat ?b"
    by simp
  then have "(of_int (\<lfloor>x\<rfloor> + 1) :: rat) \<le> of_int (2 ^ nat ?b)"
    by (simp only: of_int_le_iff)
  moreover have "x < of_int (\<lfloor>x\<rfloor> + 1)"
    using floor_correct [of x] by (rule conjunct2)
  ultimately have "x < of_int (2 ^ nat ?b)"
    by (rule less_le_trans [rotated])
  then have "x < 2 powi ?b"
    using b by (simp add: powi_nat)
  with True show ?thesis
    by (simp add: floor_log2_def)
next
  case False
  let ?z = "1 / x"
  let ?c = "\<lceil>?z\<rceil> - 1"
  let ?b = "bitlen ?c"
  from False assms have z: "1 < ?z"
    by simp
  then have c: "0 < ?c"
    by (simp add: less_ceiling_iff)
  then have b: "1 \<le> ?b"
    by (rule bitlen_pos)
  from bitlen_bounds [OF c] have "2 ^ nat (?b - 1) \<le> ?c"
    by simp
  then have "(of_int (2 ^ nat (?b - 1)) :: rat) \<le> of_int ?c"
    by (simp only: of_int_le_iff)
  moreover have "of_int ?c < ?z"
    using ceiling_correct [of ?z] by simp
  ultimately have "of_int (2 ^ nat (?b - 1)) < ?z"
    by (rule le_less_trans)
  then have "2 powi (?b - 1) < ?z"
    using b by (simp add: powi_nat)
  then have "x * 2 powi (?b - 1) < 1"
    using assms by (simp add: field_simps)
  then have "x < inverse (2 powi (?b - 1))"
    by (simp add: field_simps)
  then have "x < 2 powi (- (?b - 1))"
    by (simp only: power_int_minus)
  moreover have "- (?b - 1) = - ?b + 1"
    by simp
  ultimately have "x < 2 powi (- ?b + 1)"
    by simp
  with False show ?thesis
    by (simp add: floor_log2_def)
qed

lemma round_double_pos_eq:
  "0 < x \<Longrightarrow>
   round_double x =
     of_int (round_half_even (x / 2 powi (floor_log2 x - 52))) * 2 powi (floor_log2 x - 52)"
  by (simp add: round_double_def Let_def)

lemma round_double_zero: "round_double 0 = 0"
  by (simp add: round_double_def)

lemma round_double_minus: "round_double (- x) = - round_double x"
  by (simp add: round_double_def Let_def sgn_minus)

lemma powi_split:
  assumes "e \<le> f"
  shows "(2::rat) powi f = of_int (2 ^ nat (f - e)) * 2 powi e"
proof -
  have "(2::rat) powi f = 2 powi ((f - e) + e)"
    by simp
  also have "\<dots> = 2 powi (f - e) * 2 powi e"
    by (rule power_int_add) simp
  also have "2 powi (f - e) = (of_int (2 ^ nat (f - e)) :: rat)"
    using assms by (simp add: powi_nat)
  finally show ?thesis .
qed

lemma round_double_ge_powi:
  assumes "0 < x"
  shows "2 powi floor_log2 x \<le> round_double x"
proof -
  let ?e = "floor_log2 x"
  let ?u = "(2::rat) powi (?e - 52)"
  have u: "0 < ?u"
    by simp
  have split: "(2::rat) powi ?e = of_int (2 ^ nat 52) * ?u"
    using powi_split [of "?e - 52" ?e] by simp
  from floor_log2_lower [OF assms] have "of_int (2 ^ nat 52) * ?u \<le> x"
    by (simp only: split)
  with u have "of_int (2 ^ nat 52) \<le> x / ?u"
    by (simp add: pos_le_divide_eq)
  then have "2 ^ nat 52 \<le> round_half_even (x / ?u)"
    by (rule round_half_even_ge)
  then have "(of_int (2 ^ nat 52) :: rat) \<le> of_int (round_half_even (x / ?u))"
    by (simp only: of_int_le_iff)
  with u have "of_int (2 ^ nat 52) * ?u \<le> of_int (round_half_even (x / ?u)) * ?u"
    by (simp only: mult_le_cancel_right_pos)
  then show ?thesis
    by (simp only: split round_double_pos_eq [OF assms])
qed

lemma round_double_pos: "0 < x \<Longrightarrow> 0 < round_double x"
proof -
  assume "0 < x"
  then have "2 powi floor_log2 x \<le> round_double x"
    by (rule round_double_ge_powi)
  moreover have "(0::rat) < 2 powi floor_log2 x"
    by simp
  ultimately show ?thesis
    by (rule less_le_trans [rotated])
qed

lemma below_powi:
  assumes "m < 9007199254740992" and "f + 53 \<le> e"
  shows "of_int m * 2 powi f < (2::rat) powi e"
proof -
  have "(of_int m :: rat) < of_int 9007199254740992"
    using assms(1) by (simp only: of_int_less_iff)
  then have "of_int m * 2 powi f < of_int 9007199254740992 * (2::rat) powi f"
    by (simp only: mult_less_cancel_right_pos zero_less_power_int zero_less_numeral)
  also have "of_int 9007199254740992 * (2::rat) powi f = 2 powi (f + 53)"
    using powi_split [of f "f + 53"] by simp
  also have "\<dots> \<le> 2 powi e"
    using assms(2) by (intro power_int_increasing) simp_all
  finally show ?thesis .
qed

lemma round_double_le_grid:
  assumes "0 < x" and "x \<le> of_int m * 2 powi f" and "m < 9007199254740992"
  shows "round_double x \<le> of_int m * 2 powi f"
proof -
  let ?e = "floor_log2 x"
  let ?u = "(2::rat) powi (?e - 52)"
  have u: "0 < ?u"
    by simp
  have "?e - 52 \<le> f"
  proof (rule ccontr)
    assume "\<not> ?e - 52 \<le> f"
    then have "f + 53 \<le> ?e"
      by simp
    with assms(3) have "of_int m * 2 powi f < (2::rat) powi ?e"
      by (rule below_powi)
    also have "\<dots> \<le> x"
      using assms(1) by (rule floor_log2_lower)
    finally show False
      using assms(2) by simp
  qed
  then have split: "(2::rat) powi f = of_int (2 ^ nat (f - (?e - 52))) * ?u"
    by (rule powi_split)
  let ?j = "m * 2 ^ nat (f - (?e - 52))"
  have grid: "of_int m * 2 powi f = of_int ?j * ?u"
    by (simp add: split)
  with assms(2) have "x \<le> of_int ?j * ?u"
    by simp
  with u have "x / ?u \<le> of_int ?j"
    by (simp add: pos_divide_le_eq)
  then have "round_half_even (x / ?u) \<le> ?j"
    by (rule round_half_even_le)
  then have "(of_int (round_half_even (x / ?u)) :: rat) \<le> of_int ?j"
    by (simp only: of_int_le_iff)
  with u have "of_int (round_half_even (x / ?u)) * ?u \<le> of_int ?j * ?u"
    by (simp only: mult_le_cancel_right_pos)
  then show ?thesis
    by (simp only: grid round_double_pos_eq [OF assms(1)])
qed

lemma round_double_ge_grid:
  assumes "0 < x" and "of_int m * 2 powi f \<le> x" and "m < 9007199254740992"
  shows "of_int m * 2 powi f \<le> round_double x"
proof (cases "floor_log2 x - 52 \<le> f")
  case True
  let ?e = "floor_log2 x"
  let ?u = "(2::rat) powi (?e - 52)"
  have u: "0 < ?u"
    by simp
  from True have split: "(2::rat) powi f = of_int (2 ^ nat (f - (?e - 52))) * ?u"
    by (rule powi_split)
  let ?j = "m * 2 ^ nat (f - (?e - 52))"
  have grid: "of_int m * 2 powi f = of_int ?j * ?u"
    by (simp add: split)
  with assms(2) have "of_int ?j * ?u \<le> x"
    by simp
  with u have "of_int ?j \<le> x / ?u"
    by (simp add: pos_le_divide_eq)
  then have "?j \<le> round_half_even (x / ?u)"
    by (rule round_half_even_ge)
  then have "(of_int ?j :: rat) \<le> of_int (round_half_even (x / ?u))"
    by (simp only: of_int_le_iff)
  with u have "of_int ?j * ?u \<le> of_int (round_half_even (x / ?u)) * ?u"
    by (simp only: mult_le_cancel_right_pos)
  then show ?thesis
    by (simp only: grid round_double_pos_eq [OF assms(1)])
next
  case False
  then have "f + 53 \<le> floor_log2 x"
    by simp
  with assms(3) have "of_int m * 2 powi f < (2::rat) powi floor_log2 x"
    by (rule below_powi)
  also have "\<dots> \<le> round_double x"
    using assms(1) by (rule round_double_ge_powi)
  finally show ?thesis
    by simp
qed

lemma minutes_exact_pos:
  assumes "0 < d" and "d < 8053063680000000"
  shows "int_of_float (float_div (total_seconds d) 60) = d div 60000000"
proof -
  define k where "k = d div 60000000"
  define r where "r = d mod 60000000"
  have d: "d = 60000000 * k + r"
    unfolding k_def r_def by (simp only: mult_div_mod_eq)
  have r: "0 \<le> r" "r < 60000000"
    unfolding r_def by simp_all
  from d r assms have k: "0 \<le> k" "k < 134217728"
    by simp_all
  let ?x = "of_int d / 1000000 :: rat"
  let ?s = "total_seconds d"
  let ?y = "?s / 60"
  let ?q = "float_div ?s 60"
  let ?m1 = "62914560 * (k + 1) - 1"
  let ?m2 = "67108864 * (k + 1) - 1"
  have x: "0 < ?x"
    using assms(1) by simp
  have s_def: "?s = round_double ?x"
    by (simp only: total_seconds_def)
  have q_def: "?q = round_double ?y"
    by (simp only: float_div_def)
  \<comment> \<open>the seconds lie between two doubles\<close>
  have "60000000 * k \<le> d"
    using d r by simp
  then have "(of_int (60000000 * k) :: rat) \<le> of_int d"
    by (simp only: of_int_le_iff)
  then have "of_int (60 * k) * 2 powi 0 \<le> ?x"
    by simp
  moreover have "60 * k < 9007199254740992"
    using k by simp
  ultimately have "of_int (60 * k) * 2 powi 0 \<le> round_double ?x"
    by (rule round_double_ge_grid [OF x])
  then have s_lo: "of_int (60 * k) \<le> ?s"
    by (simp add: s_def)
  have "d * 1048576 \<le> ?m1 * 1000000"
    using d r by simp
  then have "(of_int (d * 1048576) :: rat) \<le> of_int (?m1 * 1000000)"
    by (simp only: of_int_le_iff)
  then have "?x \<le> of_int ?m1 * 2 powi (- 20)"
    by (simp add: field_simps)
  moreover have "?m1 < 9007199254740992"
    using k by simp
  ultimately have "round_double ?x \<le> of_int ?m1 * 2 powi (- 20)"
    by (rule round_double_le_grid [OF x])
  then have s_hi: "?s \<le> of_int ?m1 / 1048576"
    by (simp add: s_def)
  \<comment> \<open>so do the minutes\<close>
  have "0 < ?s"
    unfolding s_def using x by (rule round_double_pos)
  then have y: "0 < ?y"
    by simp
  from s_lo have "of_int k * 2 powi 0 \<le> ?y"
    by simp
  moreover have "k < 9007199254740992"
    using k by simp
  ultimately have "of_int k * 2 powi 0 \<le> round_double ?y"
    by (rule round_double_ge_grid [OF y])
  then have q_lo: "of_int k \<le> ?q"
    by (simp add: q_def)
  from s_hi have "?y \<le> of_int ?m1 / 62914560"
    by simp
  also have "\<dots> \<le> of_int ?m2 / 67108864"
    using k by (simp add: field_simps)
  finally have "?y \<le> of_int ?m2 * 2 powi (- 26)"
    by simp
  moreover have "?m2 < 9007199254740992"
    using k by simp
  ultimately have "round_double ?y \<le> of_int ?m2 * 2 powi (- 26)"
    by (rule round_double_le_grid [OF y])
  then have "?q \<le> of_int ?m2 / 67108864"
    by (simp add: q_def)
  also have "\<dots> < of_int k + 1"
    by (simp add: field_simps)
  finally have q_hi: "?q < of_int k + 1" .
  from q_lo q_hi have "\<lfloor>?q\<rfloor> = k"
    by (rule floor_unique)
  moreover from q_lo k have "0 \<le> ?q"
    by simp
  ultimately show ?thesis
    by (simp add: int_of_float_def k_def)
qed

lemma total_seconds_minus: "total_seconds (- d) = - total_seconds d"
  by (simp add: total_seconds_def round_double_minus)

lemma float_div_minus: "float_div (- a) b = - float_div a b"
  by (simp add: float_div_def round_double_minus)

lemma int_of_float_minus: "int_of_float (- x) = - int_of_float x"
  by (simp add: int_of_float_def ceiling_def)

lemma minutes_exact:
  assumes "\<bar>d\<bar> < 8053063680000000"
  shows "int_of_float (float_div (total_seconds d) 60) =
    (if 0 \<le> d then d div 60000000 else - ((- d) div 60000000))"
proof -
  consider "d = 0" | "0 < d" | "d < 0"
    by linarith
  then show ?thesis
  proof cases
    case 1
    then show ?thesis
      by (simp add: total_seconds_def float_div_def round_double_zero int_of_float_def)
  next
    case 2
    with assms have "d < 8053063680000000"
      by simp
    with 2 show ?thesis
      by (simp add: minutes_exact_pos)
  next
    case 3
    with assms have "0 < - d" and "- d < 8053063680000000"
      by simp_all
    then have "int_of_float (float_div (total_seconds (- d)) 60) = (- d) div 60000000"
      by (rule minutes_exact_pos)
    then have "int_of_float (float_div (total_seconds d) 60) = - ((- d) div 60000000)"
      by (simp add: total_seconds_minus float_div_minus int_of_float_minus)
    with 3 show ?thesis
      by simp
  qed
qed

lemma minutes_far_out:
  "int_of_float (float_div (total_seconds 17999999999999999) 60) = 300000000"
  by code_simp

section \<open>Session status\<close>



lemma session_status_live:
  "sessions w k = Some s \<Longrightarrow> \<not> clock w (ticks w) - last_used s > expiry s \<Longrightarrow>
   session_status w k =
     (w\<lparr>ticks := ticks w + 3,
        sessions := (sessions w)(k \<mapsto> s\<lparr>last_used := clock w (ticks w + 1)\<rparr>)\<rparr>,
      StatusActive (id_s s) (host s) (created_at s)
        (int_of_float (float_div (total_seconds
           (expiry s - (clock w (ticks w + 2) - clock w (ticks w + 1)))) 60)))"
  by (simp add: session_status_def get_session_live now_def)





section \<open>Polling the status\<close>

lemma poll_live:
  "sessions w k = Some s \<Longrightarrow> \<not> clock w (ticks w) - last_used s > expiry s \<Longrightarrow>
   (\<forall>i. Suc i < n \<longrightarrow>
      \<not> clock w (ticks w + 3 * i + 3) - clock w (ticks w + 3 * i + 1) > expiry s) \<Longrightarrow>
   snd (poll n w k) =
     map (\<lambda>i. StatusActive (id_s s) (host s) (created_at s)
            (int_of_float (float_div (total_seconds (expiry s -
               (clock w (ticks w + 3 * i + 2) - clock w (ticks w + 3 * i + 1)))) 60))) [0..<n]"
proof (induction n arbitrary: w s)
  case 0
  then show ?case by simp
next
  case (Suc n)
  let ?s1 = "s\<lparr>last_used := clock w (ticks w + 1)\<rparr>"
  let ?w1 = "w\<lparr>ticks := ticks w + 3, sessions := (sessions w)(k \<mapsto> ?s1)\<rparr>"
  let ?r = "StatusActive (id_s s) (host s) (created_at s)
      (int_of_float (float_div (total_seconds (expiry s - (clock w (ticks w + 2) - clock w (ticks w + 1)))) 60))"
  have step: "session_status w k = (?w1, ?r)"
    using Suc.prems(1,2) by (rule session_status_live)
  have stored: "sessions ?w1 k = Some ?s1"
    by simp
  have shift: "ticks ?w1 + 3 * i + j = ticks w + 3 * Suc i + j" for i j
    by simp
  have live: "\<not> clock ?w1 (ticks ?w1) - last_used ?s1 > expiry ?s1" if "0 < n"
  proof -
    from that have "Suc 0 < Suc n" by simp
    with Suc.prems(3) have
      "\<not> clock w (ticks w + 3 * 0 + 3) - clock w (ticks w + 3 * 0 + 1) > expiry s"
      by blast
    then show ?thesis by simp
  qed
  have often: "\<forall>i. Suc i < n \<longrightarrow>
      \<not> clock ?w1 (ticks ?w1 + 3 * i + 3) - clock ?w1 (ticks ?w1 + 3 * i + 1) > expiry ?s1"
  proof (intro allI impI)
    fix i assume "Suc i < n"
    then have "Suc (Suc i) < Suc n" by simp
    with Suc.prems(3) have
      "\<not> clock w (ticks w + 3 * Suc i + 3) - clock w (ticks w + 3 * Suc i + 1) > expiry s"
      by blast
    then show "\<not> clock ?w1 (ticks ?w1 + 3 * i + 3) - clock ?w1 (ticks ?w1 + 3 * i + 1)
        > expiry ?s1"
      by (simp only: shift) simp
  qed
  have rest: "snd (poll n ?w1 k) =
     map (\<lambda>i. StatusActive (id_s s) (host s) (created_at s)
            (int_of_float (float_div (total_seconds (expiry s -
               (clock w (ticks w + 3 * Suc i + 2) - clock w (ticks w + 3 * Suc i + 1)))) 60))) [0..<n]"
  proof (cases n)
    case 0
    then show ?thesis by simp
  next
    case (Suc m)
    then have "0 < n" by simp
    from Suc.IH [OF stored live [OF this] often]
    have "snd (poll n ?w1 k) =
     map (\<lambda>i. StatusActive (id_s ?s1) (host ?s1) (created_at ?s1)
            (int_of_float (float_div (total_seconds (expiry ?s1 -
               (clock ?w1 (ticks ?w1 + 3 * i + 2) - clock ?w1 (ticks ?w1 + 3 * i + 1)))) 60))) [0..<n]" .
    then show ?thesis
      by (simp only: shift) simp
  qed
  have "snd (poll (Suc n) w k) = ?r # snd (poll n ?w1 k)"
    by (simp add: step split: prod.splits)
  also have "\<dots> = map (\<lambda>i. StatusActive (id_s s) (host s) (created_at s)
            (int_of_float (float_div (total_seconds (expiry s -
               (clock w (ticks w + 3 * i + 2) - clock w (ticks w + 3 * i + 1)))) 60))) [0..<Suc n]"
    by (simp only: rest map_upt_Suc) simp
  finally show ?case .
qed


text \<open>
  Claim C9. For a session that is live when \<^verbatim>\<open>session_status\<close> is called, whatever its
  \<open>last_used\<close> was, the answer reports the minutes of \<open>expiry\<close> less the advance of the
  clock between the reading stored by the lookup and the reading taken by
  \<^verbatim>\<open>session_status\<close>: the old \<open>last_used\<close> does not enter the answer, and as long as that
  difference is not negative and below \<open>2^27\<close> minutes the answer is its exact number of
  whole minutes. The call stores the first of the two readings as the new \<open>last_used\<close>, so
  the inactivity timer starts again. Hence a client polling the status keeps the session
  alive: whenever each poll begins no more than \<open>expiry\<close> after the touch of the previous
  poll, every one of \<open>n\<close> polls in a row answers with an active status, for every \<open>n\<close>.
\<close>

theorem status_poll_keeps_alive:
  "\<forall>s. sessions w k = Some s \<and> \<not> clock w (ticks w) - last_used s > expiry s \<longrightarrow>
     snd (session_status w k) =
       StatusActive (id_s s) (host s) (created_at s)
         (int_of_float (float_div (total_seconds
            (expiry s - (clock w (ticks w + 2) - clock w (ticks w + 1)))) 60))
     \<and> (0 \<le> expiry s - (clock w (ticks w + 2) - clock w (ticks w + 1))
          \<and> expiry s - (clock w (ticks w + 2) - clock w (ticks w + 1)) < 8053063680000000 \<longrightarrow>
         snd (session_status w k) =
           StatusActive (id_s s) (host s) (created_at s)
             ((expiry s - (clock w (ticks w + 2) - clock w (ticks w + 1))) div 60000000))
     \<and> sessions (fst (session_status w k)) k = Some (s\<lparr>last_used := clock w (ticks w + 1)\<rparr>)
     \<and> ((\<forall>i. Suc i < n \<longrightarrow>
            \<not> clock w (ticks w + 3 * i + 3) - clock w (ticks w + 3 * i + 1) > expiry s) \<longrightarrow>
          snd (poll n w k) =
            map (\<lambda>i. StatusActive (id_s s) (host s) (created_at s)
                   (int_of_float (float_div (total_seconds
                      (expiry s - (clock w (ticks w + 3 * i + 2) - clock w (ticks w + 3 * i + 1))))
                      60)))
              [0..<n]
          \<and> ((\<forall>i<n. 0 \<le> expiry s
                        - (clock w (ticks w + 3 * i + 2) - clock w (ticks w + 3 * i + 1))
                   \<and> expiry s - (clock w (ticks w + 3 * i + 2) - clock w (ticks w + 3 * i + 1))
                       < 8053063680000000) \<longrightarrow>
               snd (poll n w k) =
                 map (\<lambda>i. StatusActive (id_s s) (host s) (created_at s)
                        ((expiry s
                           - (clock w (ticks w + 3 * i + 2) - clock w (ticks w + 3 * i + 1)))
                         div 60000000))
                   [0..<n]))"
proof (intro allI impI conjI)
  fix s assume live: "sessions w k = Some s \<and> \<not> clock w (ticks w) - last_used s > expiry s"
  let ?left = "\<lambda>i. expiry s - (clock w (ticks w + 3 * i + 2) - clock w (ticks w + 3 * i + 1))"
  from live show answer: "snd (session_status w k) =
       StatusActive (id_s s) (host s) (created_at s)
         (int_of_float (float_div (total_seconds
            (expiry s - (clock w (ticks w + 2) - clock w (ticks w + 1)))) 60))"
    by (simp add: session_status_live)
  from live show
    "sessions (fst (session_status w k)) k = Some (s\<lparr>last_used := clock w (ticks w + 1)\<rparr>)"
    by (simp add: session_status_live)
  {
    assume "0 \<le> expiry s - (clock w (ticks w + 2) - clock w (ticks w + 1))
        \<and> expiry s - (clock w (ticks w + 2) - clock w (ticks w + 1)) < 8053063680000000"
    then have "int_of_float (float_div (total_seconds
          (expiry s - (clock w (ticks w + 2) - clock w (ticks w + 1)))) 60) =
        (expiry s - (clock w (ticks w + 2) - clock w (ticks w + 1))) div 60000000"
      by (simp add: minutes_exact)
    with answer show "snd (session_status w k) =
        StatusActive (id_s s) (host s) (created_at s)
          ((expiry s - (clock w (ticks w + 2) - clock w (ticks w + 1))) div 60000000)"
      by simp
  }
  assume often: "\<forall>i. Suc i < n \<longrightarrow>
      \<not> clock w (ticks w + 3 * i + 3) - clock w (ticks w + 3 * i + 1) > expiry s"
  from live have "sessions w k = Some s" and "\<not> clock w (ticks w) - last_used s > expiry s"
    by simp_all
  from this often show answers: "snd (poll n w k) =
      map (\<lambda>i. StatusActive (id_s s) (host s) (created_at s)
             (int_of_float (float_div (total_seconds (?left i)) 60)))
        [0..<n]"
    by (rule poll_live)
  assume "\<forall>i<n. 0 \<le> ?left i \<and> ?left i < 8053063680000000"
  then have "int_of_float (float_div (total_seconds (?left i)) 60) = ?left i div 60000000"
    if "i < n" for i
    using that by (simp add: minutes_exact)
  then have "map (\<lambda>i. StatusActive (id_s s) (host s) (created_at s)
             (int_of_float (float_div (total_seconds (?left i)) 60))) [0..<n] =
      map (\<lambda>i. StatusActive (id_s s) (host s) (created_at s) (?left i div 60000000)) [0..<n]"
    by simp
  with answers show "snd (poll n w k) =
      map (\<lambda>i. StatusActive (id_s s) (host s) (created_at s) (?left i div 60000000)) [0..<n]"
    by simp
qed

lemma slow_simps:
  "sessions world_slow ''S1'' = Some session_ex" "ticks world_slow = 0"
  "clock world_slow n = 1500000000 * int n"
  by (simp_all add: world_slow_def world_ex_def)

theorem status_poll_keeps_alive_witness:
  "snd (session_status world_slow ''S1'') = StatusActive ''S1'' ''h'' 0 35
   \<and> sessions (fst (session_status world_slow ''S1'')) ''S1'' =
       Some (session_ex\<lparr>last_used := 1500000000\<rparr>)
   \<and> snd (poll 3 world_slow ''S1'') =
       [StatusActive ''S1'' ''h'' 0 35, StatusActive ''S1'' ''h'' 0 35,
        StatusActive ''S1'' ''h'' 0 35]"
proof -
  have live: "sessions world_slow ''S1'' = Some session_ex
      \<and> \<not> clock world_slow (ticks world_slow) - last_used session_ex > expiry session_ex"
    by (simp add: slow_simps ex_simps)
  have bound: "0 \<le> expiry session_ex
        - (clock world_slow (ticks world_slow + 2) - clock world_slow (ticks world_slow + 1))
      \<and> expiry session_ex
        - (clock world_slow (ticks world_slow + 2) - clock world_slow (ticks world_slow + 1))
        < 8053063680000000"
    by (simp add: slow_simps ex_simps)
  have often: "\<forall>i. Suc i < 3 \<longrightarrow>
      \<not> clock world_slow (ticks world_slow + 3 * i + 3)
          - clock world_slow (ticks world_slow + 3 * i + 1) > expiry session_ex"
    by (simp add: slow_simps ex_simps)
  have bounds: "\<forall>i<3. 0 \<le> expiry session_ex
        - (clock world_slow (ticks world_slow + 3 * i + 2)
           - clock world_slow (ticks world_slow + 3 * i + 1))
      \<and> expiry session_ex
        - (clock world_slow (ticks world_slow + 3 * i + 2)
           - clock world_slow (ticks world_slow + 3 * i + 1))
        < 8053063680000000"
    by (simp add: slow_simps ex_simps)
  note all = status_poll_keeps_alive [of world_slow "''S1''" 3, THEN spec, THEN mp, OF live]
  have a: "snd (session_status world_slow ''S1'') = StatusActive ''S1'' ''h'' 0 35"
    using all [THEN conjunct2, THEN conjunct1, THEN mp, OF bound]
    by (simp add: slow_simps ex_simps) (simp add: session_ex_def)
  have b: "sessions (fst (session_status world_slow ''S1'')) ''S1'' =
       Some (session_ex\<lparr>last_used := 1500000000\<rparr>)"
    using all [THEN conjunct2, THEN conjunct2, THEN conjunct1] by (simp add: slow_simps)
  have c: "snd (poll 3 world_slow ''S1'') =
       [StatusActive ''S1'' ''h'' 0 35, StatusActive ''S1'' ''h'' 0 35,
        StatusActive ''S1'' ''h'' 0 35]"
    using all [THEN conjunct2, THEN conjunct2, THEN conjunct2, THEN mp, OF often,
        THEN conjunct2, THEN mp, OF bounds]
    by (simp add: slow_simps ex_simps session_ex_def timedelta_hours_def upt_rec)
  from a b c show ?thesis
    by (intro conjI)
qed

section \<open>What a lookup changes\<close>

lemma credentials_kept_refl: "credentials_kept w w"
  by (simp add: credentials_kept_def)

lemma credentials_kept_sessions:
  "sessions w' = sessions w'' \<Longrightarrow> credentials_kept w w'' \<Longrightarrow> credentials_kept w w'"
  by (simp add: credentials_kept_def)

lemma get_session_kept: "credentials_kept w (fst (get_session w k))"
proof (cases rule: get_session_cases [of w k])
  case absent
  then show ?thesis by (simp add: credentials_kept_refl)
next
  case (expired s)
  then show ?thesis by (simp add: credentials_kept_def)
next
  case (live s)
  then show ?thesis by (auto simp add: credentials_kept_def)
qed

lemma session_status_sessions:
  "sessions (fst (session_status w k)) = sessions (fst (get_session w k))"
  by (simp add: session_status_def now_def split: prod.splits option.splits)

lemma connection_sessions:
  "sessions (fst (get_databricks_connection w sid)) =
     (if truthy sid then sessions (fst (get_session w (the sid))) else sessions w)"
  by (simp add: get_databricks_connection_def split: prod.splits option.splits sum.splits)

lemma api_credentials_sessions:
  "sessions (fst (databricks_api_request_credentials w sid)) =
     (if truthy sid then sessions (fst (get_session w (the sid))) else sessions w)"
  by (simp add: databricks_api_request_credentials_def
      split: prod.splits option.splits sum.splits)

lemma session_status_kept: "credentials_kept w (fst (session_status w k))"
  using session_status_sessions get_session_kept by (rule credentials_kept_sessions)

lemma connection_kept: "credentials_kept w (fst (get_databricks_connection w sid))"
proof (cases "truthy sid")
  case True
  then have "sessions (fst (get_databricks_connection w sid)) =
      sessions (fst (get_session w (the sid)))"
    by (simp add: connection_sessions)
  then show ?thesis
    using get_session_kept by (rule credentials_kept_sessions)
next
  case False
  then have "sessions (fst (get_databricks_connection w sid)) = sessions w"
    by (simp add: connection_sessions)
  then show ?thesis
    using credentials_kept_refl by (rule credentials_kept_sessions)
qed

lemma api_credentials_kept:
  "credentials_kept w (fst (databricks_api_request_credentials w sid))"
proof (cases "truthy sid")
  case True
  then have "sessions (fst (databricks_api_request_credentials w sid)) =
      sessions (fst (get_session w (the sid)))"
    by (simp add: api_credentials_sessions)
  then show ?thesis
    using get_session_kept by (rule credentials_kept_sessions)
next
  case False
  then have "sessions (fst (databricks_api_request_credentials w sid)) = sessions w"
    by (simp add: api_credentials_sessions)
  then show ?thesis
    using credentials_kept_refl by (rule credentials_kept_sessions)
qed

lemma logout_kept: "credentials_kept w (fst (logout w k))"
  by (auto simp add: logout_def credentials_kept_def split: if_splits)

lemma login_others:
  "k \<noteq> uuids w (drawn w) \<Longrightarrow> sessions (fst (login w h t p pr)) k = sessions w k"
  by (cases pr) (simp_all add: login_ok login_failed)

lemma get_session_found:
  assumes "get_session w k = (w1, Some s1)"
  obtains s where "sessions w k = Some s"
    and "\<not> clock w (ticks w) - last_used s > expiry s"
    and "s1 = s\<lparr>last_used := clock w (ticks w + 1)\<rparr>"
    and "w1 = w\<lparr>ticks := ticks w + 2, sessions := (sessions w)(k \<mapsto> s1)\<rparr>"
proof (cases rule: get_session_cases [of w k])
  case absent
  with assms show ?thesis by simp
next
  case (expired s)
  with assms show ?thesis by simp
next
  case (live s)
  with assms that show ?thesis by auto
qed

text \<open>
  Claim C8 as stated, "each successful get strictly advances \<open>last_used\<close>", does not hold:
  the touch stores whatever \<^verbatim>\<open>datetime.now()\<close> returns, and nothing in the code makes two
  readings differ. \<^verbatim>\<open>datetime.now()\<close> is the local wall clock: it returns the same value
  twice when it is read twice within its resolution, and an earlier value after the clock
  has been set back. Under a clock that stands at 5, two successful lookups in a row both
  leave \<open>last_used\<close> at 5.
\<close>

theorem touch_counterexample:
  "snd (get_session world_stalled ''S1'') = Some (session_ex\<lparr>last_used := 5\<rparr>)
   \<and> snd (get_session (fst (get_session world_stalled ''S1'')) ''S1'') =
       Some (session_ex\<lparr>last_used := 5\<rparr>)
   \<and> \<not> last_used (the (snd (get_session world_stalled ''S1'')))
         < last_used (the (snd (get_session (fst (get_session world_stalled ''S1'')) ''S1'')))"
proof -
  have stored: "sessions world_stalled ''S1'' = Some session_ex"
    by (simp add: world_stalled_def world_ex_def)
  have live: "\<not> clock world_stalled (ticks world_stalled) - last_used session_ex
      > expiry session_ex"
    by (simp add: world_stalled_def ex_simps)
  note first = get_session_live [OF stored live]
  let ?w1 = "fst (get_session world_stalled ''S1'')"
  let ?s1 = "session_ex\<lparr>last_used := 5\<rparr>"
  have a: "snd (get_session world_stalled ''S1'') = Some ?s1"
    by (simp add: first) (simp add: world_stalled_def)
  have stored1: "sessions ?w1 ''S1'' = Some ?s1"
    by (simp add: first) (simp add: world_stalled_def)
  have live1: "\<not> clock ?w1 (ticks ?w1) - last_used ?s1 > expiry ?s1"
    by (simp add: first ex_simps) (simp add: world_stalled_def)
  have clock1: "clock ?w1 n = 5" for n
    by (simp add: first) (simp add: world_stalled_def)
  have b: "snd (get_session ?w1 ''S1'') = Some ?s1"
    by (simp add: get_session_live [OF stored1 live1] clock1)
  from a b show ?thesis
    by simp
qed

text \<open>
  Claim C8, amended. For every live session, each successful \<^verbatim>\<open>get_session\<close> sets
  \<open>last_used\<close> to the clock reading taken by the touch and leaves every other field of the
  session, \<open>id\<close>, \<open>host\<close>, \<open>token\<close> and \<open>http_path\<close> among them, unchanged. Of two successful
  lookups in a row the second records a strictly later \<open>last_used\<close> than the first exactly
  when its clock reading is strictly later than the reading of the first. No operation
  changes the \<open>id\<close>, \<open>host\<close>, \<open>token\<close> or \<open>http_path\<close> of a stored session: after a lookup, a
  status request, a credential resolution or a logout every stored session was stored
  before under the same identifier with the same four fields, and \<^verbatim>\<open>login\<close> leaves the
  entry of every identifier other than the new one as it was.
\<close>

theorem touch_keeps_credentials:
  "(\<forall>w1 s1. get_session w k = (w1, Some s1) \<longrightarrow>
      (\<exists>s. sessions w k = Some s \<and> s1 = s\<lparr>last_used := clock w (ticks w + 1)\<rparr>
           \<and> id_s s1 = id_s s \<and> host s1 = host s \<and> token s1 = token s
           \<and> http_path s1 = http_path s)
      \<and> sessions w1 k = Some s1
      \<and> (\<forall>w2 s2. get_session w1 k = (w2, Some s2) \<longrightarrow>
            s2 = s1\<lparr>last_used := clock w (ticks w + 3)\<rparr>
            \<and> (last_used s1 < last_used s2
                 \<longleftrightarrow> clock w (ticks w + 1) < clock w (ticks w + 3))))
   \<and> credentials_kept w (fst (get_session w k))
   \<and> credentials_kept w (fst (session_status w k))
   \<and> credentials_kept w (fst (get_databricks_connection w sid))
   \<and> credentials_kept w (fst (databricks_api_request_credentials w sid))
   \<and> credentials_kept w (fst (logout w k))
   \<and> (\<forall>k'. k' \<noteq> uuids w (drawn w) \<longrightarrow> sessions (fst (login w h t p pr)) k' = sessions w k')"
proof (intro conjI allI impI)
  fix w1 s1
  assume first: "get_session w k = (w1, Some s1)"
  then obtain s where s: "sessions w k = Some s"
    and s1: "s1 = s\<lparr>last_used := clock w (ticks w + 1)\<rparr>"
    and w1: "w1 = w\<lparr>ticks := ticks w + 2, sessions := (sessions w)(k \<mapsto> s1)\<rparr>"
    by (rule get_session_found)
  from s s1 show "\<exists>s. sessions w k = Some s \<and> s1 = s\<lparr>last_used := clock w (ticks w + 1)\<rparr>
      \<and> id_s s1 = id_s s \<and> host s1 = host s \<and> token s1 = token s
      \<and> http_path s1 = http_path s"
    by simp
  from w1 show stored1: "sessions w1 k = Some s1"
    by simp
  fix w2 s2
  assume "get_session w1 k = (w2, Some s2)"
  then obtain s' where "sessions w1 k = Some s'"
    and "s2 = s'\<lparr>last_used := clock w1 (ticks w1 + 1)\<rparr>"
    by (rule get_session_found)
  with stored1 have "s2 = s1\<lparr>last_used := clock w1 (ticks w1 + 1)\<rparr>"
    by simp
  moreover have "clock w1 (ticks w1 + 1) = clock w (ticks w + 3)"
    by (simp add: w1 numeral_3_eq_3)
  ultimately show s2: "s2 = s1\<lparr>last_used := clock w (ticks w + 3)\<rparr>"
    by simp
  from s1 s2 show "last_used s1 < last_used s2
      \<longleftrightarrow> clock w (ticks w + 1) < clock w (ticks w + 3)"
    by simp
next
  show "credentials_kept w (fst (get_session w k))"
    by (rule get_session_kept)
  show "credentials_kept w (fst (session_status w k))"
    by (rule session_status_kept)
  show "credentials_kept w (fst (get_databricks_connection w sid))"
    by (rule connection_kept)
  show "credentials_kept w (fst (databricks_api_request_credentials w sid))"
    by (rule api_credentials_kept)
  show "credentials_kept w (fst (logout w k))"
    by (rule logout_kept)
  show "sessions (fst (login w h t p pr)) k' = sessions w k'" if "k' \<noteq> uuids w (drawn w)" for k'
    using that by (rule login_others)
qed

theorem touch_keeps_credentials_witness:
  "snd (get_session world_ex ''S1'') = Some (session_ex\<lparr>last_used := 2000\<rparr>)
   \<and> sessions (fst (get_session world_ex ''S1'')) ''S1'' = Some (session_ex\<lparr>last_used := 2000\<rparr>)
   \<and> snd (get_session (fst (get_session world_ex ''S1'')) ''S1'') =
       Some (session_ex\<lparr>last_used := 4000\<rparr>)
   \<and> last_used (session_ex\<lparr>last_used := 2000\<rparr>) < last_used (session_ex\<lparr>last_used := 4000\<rparr>)
   \<and> (\<exists>s. sessions world_ex ''S1'' = Some s
          \<and> id_s (session_ex\<lparr>last_used := 2000\<rparr>) = id_s s
          \<and> host (session_ex\<lparr>last_used := 2000\<rparr>) = host s
          \<and> token (session_ex\<lparr>last_used := 2000\<rparr>) = token s
          \<and> http_path (session_ex\<lparr>last_used := 2000\<rparr>) = http_path s)
   \<and> sessions (fst (login world_ex ''h2'' ''t2'' ''p2'' ProbeOk)) ''S1'' = Some session_ex"
proof -
  let ?s1 = "session_ex\<lparr>last_used := 2000\<rparr>"
  let ?s2 = "session_ex\<lparr>last_used := 4000\<rparr>"
  let ?w1 = "world_ex\<lparr>ticks := 2, sessions := (sessions world_ex)(''S1'' \<mapsto> ?s1)\<rparr>"
  let ?w2 = "?w1\<lparr>ticks := 4, sessions := (sessions ?w1)(''S1'' \<mapsto> ?s2)\<rparr>"
  have stored: "sessions world_ex ''S1'' = Some session_ex"
    and live: "\<not> clock world_ex (ticks world_ex) - last_used session_ex > expiry session_ex"
    by (simp_all add: ex_simps)
  have first: "get_session world_ex ''S1'' = (?w1, Some ?s1)"
    by (simp add: get_session_live [OF stored live] ex_simps)
  have stored1: "sessions ?w1 ''S1'' = Some ?s1"
    and live1: "\<not> clock ?w1 (ticks ?w1) - last_used ?s1 > expiry ?s1"
    by (simp_all add: ex_simps)
  have second: "get_session ?w1 ''S1'' = (?w2, Some ?s2)"
    by (simp add: get_session_live [OF stored1 live1] ex_simps)
  have other: "''S1'' \<noteq> uuids world_ex (drawn world_ex)"
    by (simp add: world_ex_def uuids_ex_def)
  note all = touch_keeps_credentials [of world_ex "''S1''" None "''h2''" "''t2''" "''p2''" ProbeOk]
  note one = all [THEN conjunct1, THEN spec, THEN spec, THEN mp, OF first]
  note two = one [THEN conjunct2, THEN conjunct2, THEN spec, THEN spec, THEN mp, OF second]
  have a: "snd (get_session world_ex ''S1'') = Some ?s1"
    by (simp only: first snd_conv)
  have b: "sessions (fst (get_session world_ex ''S1'')) ''S1'' = Some ?s1"
    using one [THEN conjunct2, THEN conjunct1] by (simp only: first fst_conv)
  have c: "snd (get_session (fst (get_session world_ex ''S1'')) ''S1'') = Some ?s2"
    by (simp only: first second fst_conv snd_conv)
  have d: "last_used ?s1 < last_used ?s2"
    using two [THEN conjunct2] by (simp add: ex_simps)
  have after_status: "sessions (fst (session_status world_ex ''S1'')) ''S1'' = Some ?s1"
    by (simp add: session_status_live [OF stored live] ex_simps)
  note kept = all [THEN conjunct2, THEN conjunct2, THEN conjunct1]
  note e = kept [unfolded credentials_kept_def, THEN spec, THEN spec, THEN mp, OF after_status]
  have f: "sessions (fst (login world_ex ''h2'' ''t2'' ''p2'' ProbeOk)) ''S1'' = Some session_ex"
    using all [THEN conjunct2, THEN conjunct2, THEN conjunct2, THEN conjunct2, THEN conjunct2,
        THEN conjunct2, THEN spec, THEN mp, OF other]
    by (simp only: stored)
  from a b c d e f show ?thesis
    by (intro conjI)
qed

section \<open>Session creation\<close>

lemma Session_init_eq:
  "Session_init w h t p =
     (w\<lparr>drawn := drawn w + 1, ticks := ticks w + 2\<rparr>,
      \<lparr>id_s = uuids w (drawn w), host = h, token = t, http_path = p,
       created_at = clock w (ticks w), last_used = clock w (ticks w + 1),
       expiry = timedelta_hours 1\<rparr>)"
  by (simp add: Session_init_def uuid4_def now_def)

lemma get_session_source:
  "drawn (fst (get_session w k)) = drawn w \<and> uuids (fst (get_session w k)) = uuids w"
  by (cases rule: get_session_cases [of w k]) simp_all

lemma session_status_source:
  "drawn (fst (session_status w k)) = drawn w \<and> uuids (fst (session_status w k)) = uuids w"
proof -
  obtain w1 r where g: "get_session w k = (w1, r)"
    by (cases "get_session w k")
  with get_session_source [of w k] have "drawn w1 = drawn w \<and> uuids w1 = uuids w"
    by simp
  with g show ?thesis
    by (simp add: session_status_def now_def split: option.splits)
qed

lemma connection_source:
  "drawn (fst (get_databricks_connection w sid)) = drawn w
   \<and> uuids (fst (get_databricks_connection w sid)) = uuids w"
proof (cases "truthy sid")
  case True
  then obtain k where "sid = Some k" and "k \<noteq> []"
    by (cases sid) (simp_all add: truthy_simps)
  then show ?thesis
    using get_session_source [of w k] by (simp add: connection_from_session)
next
  case False
  then show ?thesis
    by (simp add: connection_from_environ)
qed

lemma api_credentials_source:
  "drawn (fst (databricks_api_request_credentials w sid)) = drawn w
   \<and> uuids (fst (databricks_api_request_credentials w sid)) = uuids w"
proof (cases "truthy sid")
  case True
  then obtain k where "sid = Some k" and "k \<noteq> []"
    by (cases sid) (simp_all add: truthy_simps)
  then show ?thesis
    using get_session_source [of w k] by (simp add: api_credentials_from_session)
next
  case False
  then show ?thesis
    by (simp add: api_credentials_from_environ)
qed

lemma logout_source:
  "drawn (fst (logout w k)) = drawn w \<and> uuids (fst (logout w k)) = uuids w"
  by (simp add: logout_def)

lemma drawn_earlier_kept:
  assumes "drawn_earlier w" and "credentials_kept w w'"
    and "drawn w' = drawn w \<and> uuids w' = uuids w"
  shows "drawn_earlier w'"
  unfolding drawn_earlier_def
proof (intro allI impI)
  fix k s'
  assume "sessions w' k = Some s'"
  with assms(2) obtain s where "sessions w k = Some s"
    unfolding credentials_kept_def by blast
  with assms(1) obtain i where "i < drawn w" and "k = uuids w i"
    unfolding drawn_earlier_def by blast
  with assms(3) show "\<exists>i<drawn w'. k = uuids w' i"
    by auto
qed

lemma drawn_earlier_start: "drawn_earlier (start env c u)"
  by (simp add: drawn_earlier_def start_def)

lemma drawn_earlier_login:
  assumes "drawn_earlier w"
  shows "drawn_earlier (fst (login w h t p pr))"
proof (cases pr)
  case ProbeOk
  have "\<exists>i<drawn w + 1. k = uuids w i" if "((sessions w)(uuids w (drawn w) \<mapsto> s0)) k = Some s"
    for k s s0
  proof (cases "k = uuids w (drawn w)")
    case True
    then show ?thesis by auto
  next
    case False
    with that have "sessions w k = Some s"
      by simp
    with assms obtain i where "i < drawn w" and "k = uuids w i"
      unfolding drawn_earlier_def by blast
    then show ?thesis
      by (auto intro: less_SucI)
  qed
  with ProbeOk show ?thesis
    by (simp add: drawn_earlier_def login_ok)
next
  case (ProbeRaised e)
  with assms show ?thesis
    by (simp add: login_failed)
qed

lemma reachable_drawn_earlier: "reachable w \<Longrightarrow> drawn_earlier w"
proof (induction rule: reachable.induct)
  case (at_start env c u)
  show ?case by (rule drawn_earlier_start)
next
  case (after_login w h t p pr)
  then show ?case by (simp add: drawn_earlier_login)
next
  case (after_logout w k)
  from after_logout.IH logout_kept logout_source show ?case
    by (rule drawn_earlier_kept)
next
  case (after_status w k)
  from after_status.IH session_status_kept session_status_source show ?case
    by (rule drawn_earlier_kept)
next
  case (after_get w k)
  from after_get.IH get_session_kept get_session_source show ?case
    by (rule drawn_earlier_kept)
next
  case (after_connection w sid)
  from after_connection.IH connection_kept connection_source show ?case
    by (rule drawn_earlier_kept)
next
  case (after_api_request w sid)
  from after_api_request.IH api_credentials_kept api_credentials_source show ?case
    by (rule drawn_earlier_kept)
qed

lemma fresh_identifier:
  assumes "inj (uuids w)" and "drawn_earlier w"
  shows "sessions w (uuids w (drawn w)) = None"
proof (rule ccontr)
  assume "sessions w (uuids w (drawn w)) \<noteq> None"
  then obtain s where "sessions w (uuids w (drawn w)) = Some s"
    by blast
  with assms(2) obtain i where "i < drawn w" and "uuids w (drawn w) = uuids w i"
    unfolding drawn_earlier_def by blast
  with assms(1) show False
    by (auto dest: injD)
qed

text \<open>
  Claim C5 as stated, "session creation generates a fresh identifier, constructs a Session
  with \<open>created_at = last_used = now\<close>, inserts it, returns it and never fails", does not
  hold in the part about the timestamps: the constructor reads the clock twice (lines 26
  and 27), so the two timestamps differ whenever the clock advances between the two
  reads. Under a clock that advances by a millisecond per reading, the session is created
  at 1000 and last used at 2000.
\<close>

theorem session_creation_counterexample:
  "snd (Session_init world_ex ''h'' ''t'' ''p'') =
     \<lparr>id_s = ''U'', host = ''h'', token = ''t'', http_path = ''p'',
      created_at = 1000, last_used = 2000, expiry = 3600000000\<rparr>
   \<and> sessions (fst (login world_ex ''h'' ''t'' ''p'' ProbeOk)) ''U'' =
     Some \<lparr>id_s = ''U'', host = ''h'', token = ''t'', http_path = ''p'',
           created_at = 1000, last_used = 2000, expiry = 3600000000\<rparr>
   \<and> created_at (snd (Session_init world_ex ''h'' ''t'' ''p''))
       \<noteq> last_used (snd (Session_init world_ex ''h'' ''t'' ''p''))"
  by (simp add: Session_init_eq login_ok world_ex_def uuids_ex_def timedelta_hours_def)

text \<open>
  Claim C5, amended. For every credential triple, session creation (reached by
  \<^verbatim>\<open>login\<close> after a successful probe) generates an identifier with \<^verbatim>\<open>uuid4\<close>. In every
  state the server reaches, the identifiers in the store are identifiers generated
  earlier; so, \<^verbatim>\<open>uuid4\<close> never returning the same identifier twice, the new identifier is
  fresh: it is not in the store and differs from every identifier generated before, and
  every session stored before is still stored unchanged. Session creation constructs a
  Session that holds the three credentials, whose \<open>created_at\<close> is the next clock reading
  and whose \<open>last_used\<close> is the reading after that (the two are equal exactly when the clock
  did not advance between the two reads, and \<open>created_at \<le> last_used\<close> when it did not go
  back), with an expiry of one hour; it stores the session under the new identifier,
  answers with the identifier, and has no failing outcome.
\<close>

theorem session_creation:
  "Session_init w h t p =
     (w\<lparr>drawn := drawn w + 1, ticks := ticks w + 2\<rparr>,
      \<lparr>id_s = uuids w (drawn w), host = h, token = t, http_path = p,
       created_at = clock w (ticks w), last_used = clock w (ticks w + 1),
       expiry = timedelta_hours 1\<rparr>)
   \<and> login w h t p ProbeOk =
       (fst (Session_init w h t p)
          \<lparr>sessions := (sessions w)(uuids w (drawn w) \<mapsto> snd (Session_init w h t p))\<rparr>,
        Authenticated h (uuids w (drawn w)))
   \<and> (created_at (snd (Session_init w h t p)) = last_used (snd (Session_init w h t p))
        \<longleftrightarrow> clock w (ticks w) = clock w (ticks w + 1))
   \<and> (clock w (ticks w) \<le> clock w (ticks w + 1) \<longrightarrow>
        created_at (snd (Session_init w h t p)) \<le> last_used (snd (Session_init w h t p)))
   \<and> (\<forall>e. snd (login w h t p ProbeOk) \<noteq> AuthenticationFailed e)
   \<and> dom (sessions (fst (login w h t p ProbeOk))) = insert (uuids w (drawn w)) (dom (sessions w))
   \<and> (reachable w \<longrightarrow> drawn_earlier w)
   \<and> (inj (uuids w) \<and> drawn_earlier w \<longrightarrow>
        sessions w (uuids w (drawn w)) = None
        \<and> (\<forall>i<drawn w. uuids w i \<noteq> uuids w (drawn w))
        \<and> (\<forall>k s. sessions w k = Some s \<longrightarrow> sessions (fst (login w h t p ProbeOk)) k = Some s)
        \<and> inj (uuids (fst (login w h t p ProbeOk)))
        \<and> drawn_earlier (fst (login w h t p ProbeOk)))"
proof (intro conjI allI impI)
  show "Session_init w h t p =
     (w\<lparr>drawn := drawn w + 1, ticks := ticks w + 2\<rparr>,
      \<lparr>id_s = uuids w (drawn w), host = h, token = t, http_path = p,
       created_at = clock w (ticks w), last_used = clock w (ticks w + 1),
       expiry = timedelta_hours 1\<rparr>)"
    by (rule Session_init_eq)
  show "login w h t p ProbeOk =
       (fst (Session_init w h t p)
          \<lparr>sessions := (sessions w)(uuids w (drawn w) \<mapsto> snd (Session_init w h t p))\<rparr>,
        Authenticated h (uuids w (drawn w)))"
    by (simp add: login_ok Session_init_eq)
  show "created_at (snd (Session_init w h t p)) = last_used (snd (Session_init w h t p))
        \<longleftrightarrow> clock w (ticks w) = clock w (ticks w + 1)"
    by (simp add: Session_init_eq)
  show "created_at (snd (Session_init w h t p)) \<le> last_used (snd (Session_init w h t p))"
    if "clock w (ticks w) \<le> clock w (ticks w + 1)"
    using that by (simp add: Session_init_eq)
  show "snd (login w h t p ProbeOk) \<noteq> AuthenticationFailed e" for e
    by (simp add: login_ok)
  show "dom (sessions (fst (login w h t p ProbeOk))) = insert (uuids w (drawn w)) (dom (sessions w))"
    by (simp add: login_ok)
  show "drawn_earlier w" if "reachable w"
    using that by (rule reachable_drawn_earlier)
next
  assume gen: "inj (uuids w) \<and> drawn_earlier w"
  then show fresh: "sessions w (uuids w (drawn w)) = None"
    by (simp add: fresh_identifier)
  from gen show "inj (uuids (fst (login w h t p ProbeOk)))"
    by (simp add: login_ok)
  from gen show "drawn_earlier (fst (login w h t p ProbeOk))"
    by (simp add: drawn_earlier_login)
  {
    fix i
    assume "i < drawn w"
    with gen show "uuids w i \<noteq> uuids w (drawn w)"
      by (auto dest: injD)
  }
  {
    fix k s
    assume old: "sessions w k = Some s"
    with fresh have "k \<noteq> uuids w (drawn w)"
      by auto
    with old show "sessions (fst (login w h t p ProbeOk)) k = Some s"
      by (simp add: login_ok)
  }
qed

lemma inj_uuids_ex: "inj uuids_ex"
  by (simp add: inj_def uuids_ex_def)

lemma world_one_eq:
  "world_one =
     \<lparr>sessions = [''U'' \<mapsto> \<lparr>id_s = ''U'', host = ''h'', token = ''t'', http_path = ''p'',
                            created_at = 1000, last_used = 2000, expiry = 3600000000\<rparr>],
      environ = environ_full, clock = (\<lambda>n. 1000 * (int n + 1)), ticks = 2,
      uuids = uuids_ex, drawn = 1\<rparr>"
  by (simp add: world_one_def world_start_def start_def login_ok uuids_ex_def
      timedelta_hours_def)

theorem session_creation_witness:
  "drawn_earlier world_one
   \<and> sessions world_one ''UU'' = None
   \<and> ''U'' \<noteq> ''UU''
   \<and> login world_one ''h2'' ''t2'' ''p2'' ProbeOk =
       (fst (Session_init world_one ''h2'' ''t2'' ''p2'')
          \<lparr>sessions := (sessions world_one)
             (''UU'' \<mapsto> snd (Session_init world_one ''h2'' ''t2'' ''p2''))\<rparr>,
        Authenticated ''h2'' ''UU'')
   \<and> created_at (snd (Session_init world_one ''h2'' ''t2'' ''p2''))
       \<le> last_used (snd (Session_init world_one ''h2'' ''t2'' ''p2''))
   \<and> sessions (fst (login world_one ''h2'' ''t2'' ''p2'' ProbeOk)) ''U'' =
       Some \<lparr>id_s = ''U'', host = ''h'', token = ''t'', http_path = ''p'',
             created_at = 1000, last_used = 2000, expiry = 3600000000\<rparr>
   \<and> dom (sessions (fst (login world_one ''h2'' ''t2'' ''p2'' ProbeOk))) = {''UU'', ''U''}
   \<and> drawn_earlier (fst (login world_one ''h2'' ''t2'' ''p2'' ProbeOk))"
proof -
  note all = session_creation [of world_one "''h2''" "''t2''" "''p2''"]
  have reach: "reachable world_one"
    unfolding world_one_def world_start_def by (intro reachable.after_login reachable.at_start)
  note inv = all [THEN conjunct2, THEN conjunct2, THEN conjunct2, THEN conjunct2, THEN conjunct2,
      THEN conjunct2, THEN conjunct1, THEN mp, OF reach]
  have uu: "uuids world_one (drawn world_one) = ''UU''"
    by (simp add: world_one_eq uuids_ex_def numeral_2_eq_2)
  have u0: "uuids world_one 0 = ''U''" and one: "0 < drawn world_one"
    by (simp_all add: world_one_eq uuids_ex_def)
  have "inj (uuids world_one)"
    by (simp add: world_one_eq inj_uuids_ex)
  with inv have gen: "inj (uuids world_one) \<and> drawn_earlier world_one"
    by simp
  note rest = all [THEN conjunct2, THEN conjunct2, THEN conjunct2, THEN conjunct2,
      THEN conjunct2, THEN conjunct2, THEN conjunct2, THEN mp, OF gen]
  have forward: "clock world_one (ticks world_one) \<le> clock world_one (ticks world_one + 1)"
    by (simp add: world_one_eq)
  have old: "sessions world_one ''U'' =
      Some \<lparr>id_s = ''U'', host = ''h'', token = ''t'', http_path = ''p'',
            created_at = 1000, last_used = 2000, expiry = 3600000000\<rparr>"
    by (simp add: world_one_eq)
  have d: "dom (sessions world_one) = {''U''}"
    by (simp add: world_one_eq)
  have a: "sessions world_one ''UU'' = None"
    using rest [THEN conjunct1] by (simp only: uu)
  note b = rest [THEN conjunct2, THEN conjunct1, THEN spec, THEN mp, OF one, unfolded uu u0]
  have c: "login world_one ''h2'' ''t2'' ''p2'' ProbeOk =
       (fst (Session_init world_one ''h2'' ''t2'' ''p2'')
          \<lparr>sessions := (sessions world_one)
             (''UU'' \<mapsto> snd (Session_init world_one ''h2'' ''t2'' ''p2''))\<rparr>,
        Authenticated ''h2'' ''UU'')"
    using all [THEN conjunct2, THEN conjunct1] by (simp only: uu)
  note e = all [THEN conjunct2, THEN conjunct2, THEN conjunct2, THEN conjunct1, THEN mp,
      OF forward]
  note f = rest [THEN conjunct2, THEN conjunct2, THEN conjunct1, THEN spec, THEN spec, THEN mp,
      OF old]
  have g: "dom (sessions (fst (login world_one ''h2'' ''t2'' ''p2'' ProbeOk))) = {''UU'', ''U''}"
    using all [THEN conjunct2, THEN conjunct2, THEN conjunct2, THEN conjunct2, THEN conjunct2,
        THEN conjunct1]
    by (simp only: uu d)
  note h = rest [THEN conjunct2, THEN conjunct2, THEN conjunct2, THEN conjunct2]
  from inv a b c e f g h show ?thesis
    by (intro conjI)
qed

end
